theory Spec2Isabelle
  imports Complex_Main
begin

section \<open>Tensors, errors and Python slicing\<close>

text \<open>
  The model of \<^verbatim>\<open>models/eff_acat.py\<close>. Tensors are nested lists, outermost axis
  first; float32 arithmetic is idealised by the reals. A nested list determines
  its shape only along non-empty axes, so the sizes that the code reads with
  \<^verbatim>\<open>size\<close> and \<^verbatim>\<open>shape\<close> are read from the first element of each axis;
  the positional encoding, whose checks depend on the sizes below an empty axis,
  keeps the shape beside the nested list. Exceptions of the numeric backend and
  of the interpreter are values of the type \<open>error\<close>. The attention strategies,
  the Gaussian-process library and the values that the random initialisers draw
  are not part of the file and are parameters of the model.
\<close>

type_synonym vec = "real list"
type_synonym mat = "real list list"
type_synonym tensor3 = "real list list list"
type_synonym tensor4 = "real list list list list"
type_synonym mask3 = "int list list list"
type_synonym mask4 = "int list list list list"

datatype error = IndexError | RuntimeError | ValueError | AttributeError

definition bind_res :: "error + 'a \<Rightarrow> ('a \<Rightarrow> error + 'b) \<Rightarrow> error + 'b" where
  "bind_res m f = (case m of Inl e \<Rightarrow> Inl e | Inr x \<Rightarrow> f x)"

fun mapM :: "('a \<Rightarrow> error + 'b) \<Rightarrow> 'a list \<Rightarrow> error + 'b list" where
  "mapM f [] = Inr []"
| "mapM f (x # xs) =
     (case f x of Inl e \<Rightarrow> Inl e
      | Inr y \<Rightarrow> (case mapM f xs of Inl e \<Rightarrow> Inl e | Inr ys \<Rightarrow> Inr (y # ys)))"

definition size0 :: "'a list \<Rightarrow> nat" where
  "size0 t = length t"

definition size1 :: "'a list list \<Rightarrow> nat" where
  "size1 t = (case t of [] \<Rightarrow> 0 | r # _ \<Rightarrow> length r)"

definition size2 :: "'a list list list \<Rightarrow> nat" where
  "size2 t = (case t of [] \<Rightarrow> 0 | r # _ \<Rightarrow> size1 r)"

text \<open>\<^verbatim>\<open>xs[i:]\<close> and \<^verbatim>\<open>xs[:k]\<close>: a slice never raises, it is clamped to the list.\<close>

definition slice_from :: "int \<Rightarrow> 'a list \<Rightarrow> 'a list" where
  "slice_from i xs =
     drop (if i < 0 then nat (max 0 (int (length xs) + i)) else nat i) xs"

definition slice_to :: "nat \<Rightarrow> 'a list \<Rightarrow> 'a list" where
  "slice_to k xs = take k xs"

section \<open>The causal mask\<close>

text \<open>
  \<^verbatim>\<open>np.ones(shape)\<close> for a three-axis shape, and \<^verbatim>\<open>np.triu(m, k)\<close>, which on
  a stack of matrices keeps the entries of the last two axes with
  \<open>j - i \<ge> k\<close> and zeroes the others. \<^verbatim>\<open>.int()\<close> truncates towards zero.
\<close>

definition np_ones :: "nat \<times> nat \<times> nat \<Rightarrow> tensor3" where
  "np_ones shp = (case shp of (b, r, c) \<Rightarrow> replicate b (replicate r (replicate c 1)))"

definition triu_row :: "int \<Rightarrow> nat \<Rightarrow> vec \<Rightarrow> vec" where
  "triu_row k i row =
     map (\<lambda>(j, v). if int j - int i \<ge> k then v else 0) (zip [0..<length row] row)"

definition np_triu :: "tensor3 \<Rightarrow> int \<Rightarrow> tensor3" where
  "np_triu m k = map (\<lambda>a. map (\<lambda>(i, row). triu_row k i row) (zip [0..<length a] a)) m"

definition to_int :: "real \<Rightarrow> int" where
  "to_int x = (if x < 0 then \<lceil>x\<rceil> else \<lfloor>x\<rfloor>)"

definition get_attn_subsequent_mask :: "'a list list list \<Rightarrow> mask3" where
  "get_attn_subsequent_mask seq =
     (let attn_shape = (size0 seq, size1 seq, size1 seq);
          subsequent_mask = np_triu (np_ones attn_shape) 1
      in map (map (map to_int)) subsequent_mask)"

section \<open>Multi-head attention\<close>

text \<open>\<^verbatim>\<open>nn.Linear\<close>: the weight has one row per output feature.\<close>

record linear =
  in_features :: nat
  out_features :: nat
  weight :: mat
  bias :: "vec option"

definition dot :: "vec \<Rightarrow> vec \<Rightarrow> real" where
  "dot w v = sum_list (map (\<lambda>(a, b). a * b) (zip w v))"

definition linear_vec :: "linear \<Rightarrow> vec \<Rightarrow> error + vec" where
  "linear_vec l v =
     (if length v \<noteq> in_features l then Inl RuntimeError
      else Inr (case bias l of
                  None \<Rightarrow> map (\<lambda>w. dot w v) (weight l)
                | Some b \<Rightarrow> map (\<lambda>(w, c). dot w v + c) (zip (weight l) b)))"

definition linear3 :: "linear \<Rightarrow> tensor3 \<Rightarrow> error + tensor3" where
  "linear3 l t = mapM (mapM (linear_vec l)) t"

text \<open>\<^verbatim>\<open>"KittyCat" in attn_type\<close>: the substring test of Python strings.\<close>

fun py_in :: "string \<Rightarrow> string \<Rightarrow> bool" where
  "py_in p [] = (p = [])"
| "py_in p (c # cs) = (take (length p) (c # cs) = p \<or> py_in p cs)"

text \<open>
  The attention strategies are classes of other modules of the repository; what
  \<^verbatim>\<open>MultiHeadAttention.forward\<close> constructs is one of these six, with the
  constructor arguments it passes (\<open>d_k\<close>, device, heads, key length, seed, or the
  mask flag).
\<close>

datatype attn_strategy =
    ACAT nat string nat nat int
  | KittyCatConv nat string nat nat int
  | BasicAttn nat string int
  | LogTrans nat string int
  | ProbAttention bool int
  | AutoCorrelation

record MultiHeadAttention =
  WQ :: linear
  WK :: linear
  WV :: linear
  fc :: linear
  device :: string
  d_model :: nat
  d_k :: nat
  d_v :: nat
  n_heads :: nat
  attn_type :: string
  seed :: int

text \<open>
  \<^verbatim>\<open>MultiHeadAttention.__init__\<close>. The four weight matrices are drawn by
  \<^verbatim>\<open>nn.Linear\<close>; they are arguments here. No statement of the constructor
  looks at \<^verbatim>\<open>attn_type\<close>.
\<close>

definition MultiHeadAttention_init ::
  "mat \<Rightarrow> mat \<Rightarrow> mat \<Rightarrow> mat \<Rightarrow> nat \<Rightarrow> nat \<Rightarrow> nat \<Rightarrow> nat \<Rightarrow> string \<Rightarrow> string \<Rightarrow> int
   \<Rightarrow> error + MultiHeadAttention" where
  "MultiHeadAttention_init wq wk wv wfc dm dk dv nh dev atype sd =
     Inr \<lparr>WQ = \<lparr>in_features = dm, out_features = dk * nh, weight = wq, bias = None\<rparr>,
          WK = \<lparr>in_features = dm, out_features = dk * nh, weight = wk, bias = None\<rparr>,
          WV = \<lparr>in_features = dm, out_features = dv * nh, weight = wv, bias = None\<rparr>,
          fc = \<lparr>in_features = nh * dv, out_features = dm, weight = wfc, bias = None\<rparr>,
          device = dev, d_model = dm, d_k = dk, d_v = dv, n_heads = nh,
          attn_type = atype, seed = sd\<rparr>"

text \<open>The \<^verbatim>\<open>if\<close>/\<^verbatim>\<open>elif\<close> chain of \<^verbatim>\<open>forward\<close>, in the source's order.\<close>

definition select_strategy :: "MultiHeadAttention \<Rightarrow> nat \<Rightarrow> bool \<Rightarrow> attn_strategy" where
  "select_strategy m l_k has_mask =
     (if attn_type m = ''ACAT'' then ACAT (d_k m) (device m) (n_heads m) l_k (seed m)
      else if py_in ''KittyCat'' (attn_type m)
        then KittyCatConv (d_k m) (device m) (n_heads m) l_k (seed m)
      else if attn_type m = ''basic_attn'' then BasicAttn (d_k m) (device m) (seed m)
      else if attn_type m = ''LogTrans'' then LogTrans (d_k m) (device m) (seed m)
      else if attn_type m = ''informer''
        then ProbAttention (if has_mask then True else False) (seed m)
      else AutoCorrelation)"

text \<open>
  \<^verbatim>\<open>view\<close> regroups the row-major data of a contiguous tensor; the axis given
  as \<^verbatim>\<open>-1\<close> is inferred, and the call raises when it cannot be.
  \<open>pieces k r xs\<close> cuts \<open>xs\<close> into \<open>k\<close> consecutive pieces of \<open>r\<close> elements.
\<close>

definition pieces :: "nat \<Rightarrow> nat \<Rightarrow> 'a list \<Rightarrow> 'a list list" where
  "pieces k r xs = map (\<lambda>i. take r (drop (i * r) xs)) [0..<k]"

definition view4 :: "tensor3 \<Rightarrow> nat \<Rightarrow> nat \<Rightarrow> nat \<Rightarrow> error + tensor4" where
  "view4 t b h dk =
     (let flat = concat (concat t) in
      if b * h * dk = 0 \<or> length flat mod (b * h * dk) \<noteq> 0 then Inl RuntimeError
      else let n = length flat div (b * h * dk)
           in Inr (pieces b n (pieces (b * n) h (pieces (b * n * h) dk flat))))"

definition view3 :: "tensor4 \<Rightarrow> nat \<Rightarrow> nat \<Rightarrow> error + tensor3" where
  "view3 t b w =
     (let flat = concat (concat (concat t)) in
      if b * w = 0 \<or> length flat mod (b * w) \<noteq> 0 then Inl RuntimeError
      else let n = length flat div (b * w)
           in Inr (pieces b n (pieces (b * n) w flat)))"

text \<open>\<^verbatim>\<open>transpose(1, 2)\<close> and \<^verbatim>\<open>permute(0, 2, 1)\<close>: the two axes after the batch axis swap.\<close>

definition transpose_m :: "'a list list \<Rightarrow> 'a list list" where
  "transpose_m xs = map (\<lambda>i. map (\<lambda>r. r ! i) xs) [0..<size1 xs]"

definition transpose12 :: "'a list list list \<Rightarrow> 'a list list list" where
  "transpose12 t = map transpose_m t"

text \<open>\<^verbatim>\<open>attn_mask.unsqueeze(1).repeat(1, n_heads, 1, 1)\<close>\<close>

definition repeat_heads :: "nat \<Rightarrow> mask3 \<Rightarrow> mask4" where
  "repeat_heads h m = map (\<lambda>a. replicate h a) m"

text \<open>
  \<^verbatim>\<open>MultiHeadAttention.forward\<close>. \<open>impl\<close> runs the strategy that was
  constructed on query, key, value and mask, and returns the context and the
  attention weights; the weights are of any type \<open>'w\<close>. \<open>call_strategy\<close> is the
  call in the selected branch: \<^verbatim>\<open>AutoCorrelation\<close> is given the transposed
  heads, the other strategies the heads as they are.
\<close>

type_synonym 'w attn_impl =
  "attn_strategy \<Rightarrow> tensor4 \<Rightarrow> tensor4 \<Rightarrow> tensor4 \<Rightarrow> mask4 option \<Rightarrow> error + (tensor4 \<times> 'w)"

definition call_strategy ::
  "'w attn_impl \<Rightarrow> attn_strategy \<Rightarrow> tensor4 \<Rightarrow> tensor4 \<Rightarrow> tensor4 \<Rightarrow> mask4 option
   \<Rightarrow> error + (tensor4 \<times> 'w)" where
  "call_strategy impl strategy q_s k_s v_s attn_mask =
     (case strategy of
        AutoCorrelation \<Rightarrow>
          impl strategy (transpose12 q_s) (transpose12 k_s) (transpose12 v_s) attn_mask
      | _ \<Rightarrow> impl strategy q_s k_s v_s attn_mask)"

definition MultiHeadAttention_forward ::
  "'w attn_impl \<Rightarrow> MultiHeadAttention \<Rightarrow> tensor3 \<Rightarrow> tensor3 \<Rightarrow> tensor3 \<Rightarrow> mask3 option
   \<Rightarrow> error + (tensor3 \<times> 'w)" where
  "MultiHeadAttention_forward impl m Q K V attn_mask =
     (let batch_size = size0 Q in
      bind_res (linear3 (WQ m) Q) (\<lambda>q.
      bind_res (view4 q batch_size (n_heads m) (d_k m)) (\<lambda>qv.
      bind_res (linear3 (WK m) K) (\<lambda>k.
      bind_res (view4 k batch_size (n_heads m) (d_k m)) (\<lambda>kv.
      bind_res (linear3 (WV m) V) (\<lambda>v.
      bind_res (view4 v batch_size (n_heads m) (d_v m)) (\<lambda>vv.
      let q_s = transpose12 qv; k_s = transpose12 kv; v_s = transpose12 vv;
          attn_mask4 = map_option (repeat_heads (n_heads m)) attn_mask;
          strategy = select_strategy m (size2 k_s) (attn_mask4 \<noteq> None)
      in bind_res (call_strategy impl strategy q_s k_s v_s attn_mask4)
           (\<lambda>(context, attn).
              bind_res (view3 (transpose12 context) batch_size (n_heads m * d_v m)) (\<lambda>context'.
              bind_res (linear3 (fc m) context') (\<lambda>output.
              Inr (output, attn)))))))))))"

section \<open>Feed-forward net, layer normalisation, broadcasting addition\<close>

definition relu :: "real \<Rightarrow> real" where
  "relu x = max 0 x"

record PoswiseFeedForwardNet =
  w_1 :: linear
  w_2 :: linear

definition PoswiseFeedForwardNet_forward :: "PoswiseFeedForwardNet \<Rightarrow> tensor3 \<Rightarrow> error + tensor3" where
  "PoswiseFeedForwardNet_forward f inputs =
     bind_res (linear3 (w_1 f) inputs) (\<lambda>h. linear3 (w_2 f) (map (map (map relu)) h))"

text \<open>
  \<^verbatim>\<open>nn.LayerNorm\<close> over the last axis, with the biased variance; the affine
  weight and bias are absent when \<^verbatim>\<open>elementwise_affine=False\<close>.
\<close>

record LayerNorm =
  normalized_shape :: nat
  ln_eps :: real
  ln_affine :: "(vec \<times> vec) option"

definition mean_list :: "vec \<Rightarrow> real" where
  "mean_list v = sum_list v / real (length v)"

definition layer_norm_vec :: "LayerNorm \<Rightarrow> vec \<Rightarrow> error + vec" where
  "layer_norm_vec nrm v =
     (if length v \<noteq> normalized_shape nrm then Inl RuntimeError
      else let mu = mean_list v;
               var = mean_list (map (\<lambda>x. (x - mu)\<^sup>2) v);
               n = map (\<lambda>x. (x - mu) / sqrt (var + ln_eps nrm)) v
           in Inr (case ln_affine nrm of
                     None \<Rightarrow> n
                   | Some (g, b) \<Rightarrow> map (\<lambda>(x, (gi, bi)). x * gi + bi) (zip n (zip g b))))"

definition layer_norm3 :: "LayerNorm \<Rightarrow> tensor3 \<Rightarrow> error + tensor3" where
  "layer_norm3 nrm t = mapM (mapM (layer_norm_vec nrm)) t"

text \<open>
  Elementwise operations broadcast: along each axis the two sizes are equal, or
  one of them is 1 and its single entry is repeated; anything else raises.
\<close>

definition broadcast2 :: "('a \<Rightarrow> 'b \<Rightarrow> error + 'c) \<Rightarrow> 'a list \<Rightarrow> 'b list \<Rightarrow> error + 'c list" where
  "broadcast2 f xs ys =
     (if length xs = length ys then mapM (\<lambda>(x, y). f x y) (zip xs ys)
      else if length xs = 1 then mapM (\<lambda>y. f (hd xs) y) ys
      else if length ys = 1 then mapM (\<lambda>x. f x (hd ys)) xs
      else Inl RuntimeError)"

definition add1 :: "vec \<Rightarrow> vec \<Rightarrow> error + vec" where
  "add1 = broadcast2 (\<lambda>x y. Inr (x + y))"

definition add2 :: "mat \<Rightarrow> mat \<Rightarrow> error + mat" where
  "add2 = broadcast2 add1"

definition add3 :: "tensor3 \<Rightarrow> tensor3 \<Rightarrow> error + tensor3" where
  "add3 = broadcast2 add2"

section \<open>Positional encoding\<close>

text \<open>
  Below an empty axis a nested list records no sizes. Where the code depends on
  them, the tensor is kept together with its shape, as the backend keeps it.
\<close>

record shaped2 =
  shape2 :: "nat \<times> nat"
  data2 :: mat

record shaped3 =
  shape3 :: "nat \<times> nat \<times> nat"
  data3 :: tensor3

definition zeros3 :: "nat \<times> nat \<times> nat \<Rightarrow> shaped3" where
  "zeros3 s = (case s of (b, t, d) \<Rightarrow>
     \<lparr>shape3 = s, data3 = replicate b (replicate t (replicate d 0))\<rparr>)"

definition map2d :: "(real \<Rightarrow> real) \<Rightarrow> shaped2 \<Rightarrow> shaped2" where
  "map2d f X = X\<lparr>data2 := map (map f) (data2 X)\<rparr>"

definition with_shape :: "tensor3 \<Rightarrow> shaped3" where
  "with_shape X = \<lparr>shape3 = (size0 X, size1 X, size2 X), data3 = X\<rparr>"

definition well_shaped :: "shaped3 \<Rightarrow> bool" where
  "well_shaped X = (case shape3 X of (b, t, d) \<Rightarrow>
     length (data3 X) = b \<and>
     list_all (\<lambda>x. length x = t \<and> list_all (\<lambda>v. length v = d) x) (data3 X))"

text \<open>
  \<^verbatim>\<open>dst[:, :, start::2] = src\<close>: the source is expanded to the shape of the
  strided view (an axis of size 1 is repeated, to any size, also to size 0; any
  other difference raises, whether or not there is an element to copy) and
  copied.
\<close>

definition expand_to :: "nat \<Rightarrow> 'a list \<Rightarrow> error + 'a list" where
  "expand_to n xs =
     (if length xs = n then Inr xs
      else if length xs = 1 then Inr (replicate n (hd xs))
      else Inl RuntimeError)"

definition slots :: "nat \<Rightarrow> nat \<Rightarrow> nat list" where
  "slots start d = filter (\<lambda>j. start \<le> j \<and> even (j - start)) [0..<d]"

definition write_row :: "nat \<Rightarrow> vec \<Rightarrow> vec \<Rightarrow> vec" where
  "write_row start row vs =
     map (\<lambda>(j, old). if start \<le> j \<and> even (j - start) then vs ! ((j - start) div 2) else old)
       (zip [0..<length row] row)"

definition setitem_row :: "nat \<Rightarrow> vec \<Rightarrow> vec \<Rightarrow> error + vec" where
  "setitem_row start row srow =
     bind_res (expand_to (length (slots start (length row))) srow) (\<lambda>vs.
     Inr (write_row start row vs))"

definition setitem_rows :: "nat \<Rightarrow> tensor3 \<Rightarrow> mat \<Rightarrow> error + tensor3" where
  "setitem_rows start dst src =
     mapM (\<lambda>a. bind_res (expand_to (length a) src) (\<lambda>src'.
                  mapM (\<lambda>(row, srow). setitem_row start row srow) (zip a src'))) dst"

definition setitem_step2 :: "nat \<Rightarrow> shaped3 \<Rightarrow> shaped2 \<Rightarrow> error + shaped3" where
  "setitem_step2 start dst src =
     (case (shape3 dst, shape2 src) of ((b, t, d), (r, w)) \<Rightarrow>
        if (r \<noteq> t \<and> r \<noteq> 1) \<or> (w \<noteq> length (slots start d) \<and> w \<noteq> 1) then Inl RuntimeError
        else bind_res (setitem_rows start (data3 dst) (data2 src)) (\<lambda>rows.
             Inr (dst\<lparr>data3 := rows\<rparr>)))"

record PositionalEncoding =
  P :: shaped3

text \<open>
  \<^verbatim>\<open>PositionalEncoding.__init__\<close>. \<^verbatim>\<open>X\<close> has one row per position and one
  column per even feature index; the division broadcasts the column of
  positions against the row of frequencies, for every size of either.
\<close>

definition PositionalEncoding_init :: "nat \<Rightarrow> nat \<Rightarrow> error + PositionalEncoding" where
  "PositionalEncoding_init d_hid max_len =
     (let P0 = zeros3 (1, max_len, d_hid);
          evens = filter even [0..<d_hid];
          X = \<lparr>shape2 = (max_len, length evens),
               data2 = map (\<lambda>p. map (\<lambda>j. real p / (10000 powr (real j / real d_hid))) evens)
                         [0..<max_len]\<rparr>
      in bind_res (setitem_step2 0 P0 (map2d sin X)) (\<lambda>P1.
         bind_res (setitem_step2 1 P1 (map2d cos X)) (\<lambda>P2.
         Inr \<lparr>P = P2\<rparr>)))"

text \<open>
  The table as the specification words it: sine at the even feature indices,
  cosine at the odd ones, at the frequency of the even index below.
\<close>

definition pe_entry :: "nat \<Rightarrow> nat \<Rightarrow> nat \<Rightarrow> real" where
  "pe_entry d_hid p j =
     (if even j then sin (real p / (10000 powr (real j / real d_hid)))
      else cos (real p / (10000 powr (real (j - 1) / real d_hid))))"

text \<open>Row \<open>p\<close> of the matrix \<^verbatim>\<open>X\<close> of \<^verbatim>\<open>__init__\<close>, and the whole table of the specification.\<close>

definition pe_row :: "nat \<Rightarrow> nat \<Rightarrow> vec" where
  "pe_row d p = map (\<lambda>j. real p / (10000 powr (real j / real d))) (filter even [0..<d])"

definition pe_table :: "nat \<Rightarrow> nat \<Rightarrow> mat" where
  "pe_table d L = map (\<lambda>p. map (pe_entry d p) [0..<d]) [0..<L]"

text \<open>
  \<^verbatim>\<open>PositionalEncoding.forward\<close>. The slice \<^verbatim>\<open>self.P[:, :X.shape[1], :]\<close> is
  clamped to the rows of the table; the addition broadcasts, and raises when
  along some axis the two sizes differ and neither is 1.
\<close>

definition slice1_to :: "nat \<Rightarrow> shaped3 \<Rightarrow> shaped3" where
  "slice1_to k t = (case shape3 t of (b, r, d) \<Rightarrow>
     \<lparr>shape3 = (b, min k r, d), data3 = map (slice_to k) (data3 t)\<rparr>)"

definition broadcast_size :: "nat \<Rightarrow> nat \<Rightarrow> nat option" where
  "broadcast_size m n =
     (if m = n then Some m else if m = 1 then Some n else if n = 1 then Some m else None)"

definition add_shaped3 :: "shaped3 \<Rightarrow> shaped3 \<Rightarrow> error + shaped3" where
  "add_shaped3 X Y =
     (case (shape3 X, shape3 Y) of ((b, t, d), (b', t', d')) \<Rightarrow>
        (case (broadcast_size b b', broadcast_size t t', broadcast_size d d') of
           (Some b'', Some t'', Some d'') \<Rightarrow>
             bind_res (add3 (data3 X) (data3 Y)) (\<lambda>r.
             Inr \<lparr>shape3 = (b'', t'', d''), data3 = r\<rparr>)
         | _ \<Rightarrow> Inl RuntimeError))"

definition PositionalEncoding_forward :: "PositionalEncoding \<Rightarrow> shaped3 \<Rightarrow> error + shaped3" where
  "PositionalEncoding_forward pe X =
     (case shape3 X of (b, t, d) \<Rightarrow> add_shaped3 X (slice1_to t (P pe)))"

section \<open>Encoder and decoder\<close>






record DecoderLayer =
  dec_self_attn :: MultiHeadAttention
  dec_enc_attn :: MultiHeadAttention
  dec_pos_ffn :: PoswiseFeedForwardNet
  dec_layer_norm :: LayerNorm

definition DecoderLayer_forward ::
  "'w attn_impl \<Rightarrow> DecoderLayer \<Rightarrow> tensor3 \<Rightarrow> tensor3 \<Rightarrow> mask3 option \<Rightarrow> mask3 option
   \<Rightarrow> error + (tensor3 \<times> 'w \<times> 'w)" where
  "DecoderLayer_forward impl l dec_inputs enc_outputs dec_self_attn_mask dec_enc_attn_mask =
     bind_res (MultiHeadAttention_forward impl (dec_self_attn l)
                 dec_inputs dec_inputs dec_inputs dec_self_attn_mask) (\<lambda>(out, self_attn).
     bind_res (add3 dec_inputs out) (\<lambda>s.
     bind_res (layer_norm3 (dec_layer_norm l) s) (\<lambda>out'.
     bind_res (MultiHeadAttention_forward impl (dec_enc_attn l)
                 out' enc_outputs enc_outputs dec_enc_attn_mask) (\<lambda>(out2, enc_attn).
     bind_res (add3 out' out2) (\<lambda>s2.
     bind_res (layer_norm3 (dec_layer_norm l) s2) (\<lambda>out2'.
     bind_res (PoswiseFeedForwardNet_forward (dec_pos_ffn l) out2') (\<lambda>out3.
     bind_res (add3 out2' out3) (\<lambda>s3.
     bind_res (layer_norm3 (dec_layer_norm l) s3) (\<lambda>out3'.
     Inr (out3', self_attn, enc_attn))))))))))"

record Decoder =
  dec_pos_emb :: PositionalEncoding
  dec_layers :: "DecoderLayer list"

fun Decoder_loop ::
  "'w attn_impl \<Rightarrow> DecoderLayer list \<Rightarrow> tensor3 \<Rightarrow> tensor3 \<Rightarrow> mask3 option \<Rightarrow> 'w list \<Rightarrow> 'w list
   \<Rightarrow> error + (tensor3 \<times> 'w list \<times> 'w list)" where
  "Decoder_loop impl [] dec_outputs enc_outputs amask dec_self_attns dec_enc_attns =
     Inr (dec_outputs, dec_self_attns, dec_enc_attns)"
| "Decoder_loop impl (layer # ls) dec_outputs enc_outputs amask dec_self_attns dec_enc_attns =
     (case DecoderLayer_forward impl layer dec_outputs enc_outputs amask None of
        Inl e \<Rightarrow> Inl e
      | Inr (dec_outputs', self_attn, enc_attn) \<Rightarrow>
          Decoder_loop impl ls dec_outputs' enc_outputs amask
            (dec_self_attns @ [self_attn]) (dec_enc_attns @ [enc_attn]))"

definition Decoder_forward ::
  "'w attn_impl \<Rightarrow> Decoder \<Rightarrow> tensor3 \<Rightarrow> tensor3 \<Rightarrow> error + (tensor3 \<times> 'w list \<times> 'w list)" where
  "Decoder_forward impl dec dec_inputs enc_outputs =
     bind_res (PositionalEncoding_forward (dec_pos_emb dec) (with_shape dec_inputs)) (\<lambda>dec_outputs.
     let dec_self_attn_subsequent_mask = get_attn_subsequent_mask dec_inputs
     in Decoder_loop impl (dec_layers dec) (data3 dec_outputs) enc_outputs
          (Some dec_self_attn_subsequent_mask) [] [])"


section \<open>The process model\<close>

text \<open>
  Elementwise operations with broadcasting, and the in-place form, whose result
  must have the shape of the tensor that is written.
\<close>

definition binop1 :: "(real \<Rightarrow> real \<Rightarrow> real) \<Rightarrow> vec \<Rightarrow> vec \<Rightarrow> error + vec" where
  "binop1 f = broadcast2 (\<lambda>x y. Inr (f x y))"

definition binop2 :: "(real \<Rightarrow> real \<Rightarrow> real) \<Rightarrow> mat \<Rightarrow> mat \<Rightarrow> error + mat" where
  "binop2 f = broadcast2 (binop1 f)"

definition binop3 :: "(real \<Rightarrow> real \<Rightarrow> real) \<Rightarrow> tensor3 \<Rightarrow> tensor3 \<Rightarrow> error + tensor3" where
  "binop3 f = broadcast2 (binop2 f)"

definition broadcast_into :: "('a \<Rightarrow> 'b \<Rightarrow> error + 'a) \<Rightarrow> 'a list \<Rightarrow> 'b list \<Rightarrow> error + 'a list" where
  "broadcast_into f xs ys =
     (if length ys = length xs then mapM (\<lambda>(x, y). f x y) (zip xs ys)
      else if length ys = 1 then mapM (\<lambda>x. f x (hd ys)) xs
      else Inl RuntimeError)"

definition add3_into :: "tensor3 \<Rightarrow> tensor3 \<Rightarrow> error + tensor3" where
  "add3_into = broadcast_into (broadcast_into (broadcast_into (\<lambda>x y. Inr (x + y))))"

definition scale3 :: "real \<Rightarrow> tensor3 \<Rightarrow> tensor3" where
  "scale3 c t = map (map (map (\<lambda>v. v * c))) t"

definition unsqueeze_last :: "mat \<Rightarrow> tensor3" where
  "unsqueeze_last m = map (map (\<lambda>v. [v])) m"

text \<open>
  Tensors that the code updates in place live in a store; a variable of the code
  holds a reference. \<^verbatim>\<open>x.add_(t)\<close> writes the sum at the reference of \<^verbatim>\<open>x\<close> and
  returns that same reference.
\<close>

type_synonym ref = nat
type_synonym store = "ref \<Rightarrow> tensor3"

definition add_inplace :: "store \<Rightarrow> ref \<Rightarrow> tensor3 \<Rightarrow> error + (ref \<times> store)" where
  "add_inplace st x t = bind_res (add3_into (st x) t) (\<lambda>v. Inr (x, st(x := v)))"

text \<open>
  The global generator is a stream of standard normal draws; \<^verbatim>\<open>torch.randn_like\<close>
  fills a tensor of the given shape from the front of the stream, in row-major
  order, and leaves the rest.
\<close>

type_synonym rng = "nat \<Rightarrow> real"

fun randn_mat :: "rng \<Rightarrow> nat \<Rightarrow> mat \<Rightarrow> mat" where
  "randn_mat g k [] = []"
| "randn_mat g k (v # vs) = map (\<lambda>i. g (k + i)) [0..<length v] # randn_mat g (k + length v) vs"

fun randn_tensor3 :: "rng \<Rightarrow> nat \<Rightarrow> tensor3 \<Rightarrow> tensor3" where
  "randn_tensor3 g k [] = []"
| "randn_tensor3 g k (m # ms) = randn_mat g k m # randn_tensor3 g (k + length (concat m)) ms"

definition randn_like :: "rng \<Rightarrow> tensor3 \<Rightarrow> tensor3 \<times> rng" where
  "randn_like g x = (randn_tensor3 g 0 x, (\<lambda>i. g (i + length (concat (concat x)))))"

text \<open>
  \<^verbatim>\<open>nn.Conv1d\<close> with stride 1 on a batch of channels-first rows: the rows are
  padded with zeros on both sides, and output channel \<open>o\<close> at position \<open>t\<close> is
  the bias plus the sum over the input channels and the kernel positions.
\<close>

record Conv1d =
  in_channels :: nat
  out_channels :: nat
  kernel_size :: nat
  padding :: nat
  conv_weight :: "real list list list"
  conv_bias :: vec

definition conv_channel :: "nat \<Rightarrow> mat \<Rightarrow> mat \<Rightarrow> real \<Rightarrow> nat \<Rightarrow> real" where
  "conv_channel k w xp b t =
     b + sum_list (map (\<lambda>(wc, xc). sum_list (map (\<lambda>i. wc ! i * xc ! (t + i)) [0..<k])) (zip w xp))"

definition Conv1d_forward :: "Conv1d \<Rightarrow> tensor3 \<Rightarrow> error + tensor3" where
  "Conv1d_forward c x =
     mapM (\<lambda>a.
        if length a \<noteq> in_channels c then Inl RuntimeError
        else let xp = map (\<lambda>r. replicate (padding c) 0 @ r @ replicate (padding c) 0) a;
                 n = size1 xp
             in if n < kernel_size c then Inl RuntimeError
                else Inr (map (\<lambda>(w, b). map (conv_channel (kernel_size c) w xp b)
                                           [0..<n - kernel_size c + 1])
                            (zip (conv_weight c) (conv_bias c)))) x"

text \<open>
  \<^verbatim>\<open>nn.BatchNorm1d\<close> on a tensor (batch, channels, length). In training mode it
  refuses a single value per channel, normalises each channel by the mean and
  the biased variance of its values in the batch, and moves the running
  statistics towards the batch statistics (the variance unbiased); in evaluation
  mode it normalises by the running statistics.
\<close>

record BatchNorm1d =
  num_features :: nat
  bn_eps :: real
  momentum :: real
  bn_weight :: vec
  bn_bias :: vec
  running_mean :: vec
  running_var :: vec
  num_batches_tracked :: nat
  training :: bool

definition channel_values :: "tensor3 \<Rightarrow> nat \<Rightarrow> vec" where
  "channel_values x c = concat (map (\<lambda>a. a ! c) x)"

definition BatchNorm1d_forward :: "BatchNorm1d \<Rightarrow> tensor3 \<Rightarrow> error + (tensor3 \<times> BatchNorm1d)" where
  "BatchNorm1d_forward bn x =
     (if training bn \<and> size0 x * size2 x = 1 then Inl ValueError
      else if size1 x \<noteq> num_features bn then Inl RuntimeError
      else
        let C = num_features bn;
            n = real (size0 x * size2 x);
            batch_mean = map (\<lambda>c. mean_list (channel_values x c)) [0..<C];
            batch_var = map (\<lambda>c. mean_list (map (\<lambda>v. (v - batch_mean ! c)\<^sup>2) (channel_values x c)))
                          [0..<C];
            m = (if training bn then batch_mean else running_mean bn);
            v = (if training bn then batch_var else running_var bn);
            y = map (\<lambda>a. map (\<lambda>(c, row).
                        map (\<lambda>u. (u - m ! c) / sqrt (v ! c + bn_eps bn) * bn_weight bn ! c + bn_bias bn ! c)
                          row) (zip [0..<C] a)) x;
            bn' = (if training bn
                   then bn\<lparr>running_mean :=
                             map (\<lambda>c. (1 - momentum bn) * running_mean bn ! c + momentum bn * batch_mean ! c)
                               [0..<C],
                           running_var :=
                             map (\<lambda>c. (1 - momentum bn) * running_var bn ! c
                                       + momentum bn * (batch_var ! c * n / (n - 1))) [0..<C],
                           num_batches_tracked := num_batches_tracked bn + 1\<rparr>
                   else bn)
        in Inr (y, bn'))"

text \<open>\<^verbatim>\<open>nn.Softmax(dim=-1)\<close>: over the last axis of the tensor it is given.\<close>

definition softmax_vec :: "vec \<Rightarrow> vec" where
  "softmax_vec v = map (\<lambda>x. exp x / sum_list (map exp v)) v"

definition Softmax_forward :: "tensor3 \<Rightarrow> tensor3" where
  "Softmax_forward t = map (map softmax_vec) t"

text \<open>
  The \<^verbatim>\<open>nn.Sequential\<close> of two convolutions, batch normalisation and softmax,
  built twice by \<^verbatim>\<open>process_model.__init__\<close>.
\<close>

record conv_stack =
  conv_a :: Conv1d
  conv_b :: Conv1d
  batch_norm :: BatchNorm1d

definition conv_stack_forward :: "conv_stack \<Rightarrow> tensor3 \<Rightarrow> error + (tensor3 \<times> conv_stack)" where
  "conv_stack_forward s x =
     bind_res (Conv1d_forward (conv_a s) x) (\<lambda>h1.
     bind_res (Conv1d_forward (conv_b s) h1) (\<lambda>h2.
     bind_res (BatchNorm1d_forward (batch_norm s) h2) (\<lambda>(h3, bn').
     Inr (Softmax_forward h3, s\<lparr>batch_norm := bn'\<rparr>))))"

text \<open>
  \<^verbatim>\<open>normal_kl\<close>, on matrices, with the operations in the order of the source.
\<close>

definition normal_kl :: "mat \<Rightarrow> mat \<Rightarrow> mat \<Rightarrow> mat \<Rightarrow> error + mat" where
  "normal_kl mean1 logvar1 mean2 logvar2 =
     bind_res (binop2 (\<lambda>a b. a - b) (map (map (\<lambda>v. - 1 + v)) logvar2) logvar1) (\<lambda>t1.
     bind_res (binop2 (\<lambda>a b. a - b) logvar1 logvar2) (\<lambda>d.
     bind_res (binop2 (\<lambda>a b. a + b) t1 (map (map exp) d)) (\<lambda>t2.
     bind_res (binop2 (\<lambda>a b. a - b) mean1 mean2) (\<lambda>m.
     bind_res (binop2 (\<lambda>a b. a * b) (map (map (\<lambda>v. v\<^sup>2)) m) (map (map (\<lambda>v. exp (- v))) logvar2)) (\<lambda>t3.
     bind_res (binop2 (\<lambda>a b. a + b) t2 t3) (\<lambda>t.
     Inr (map (map (\<lambda>v. 0.5 * v)) t)))))))"

text \<open>
  The Gaussian-process modules belong to an external library. What the code
  reads from them, the mean and the variance of the distribution built from a
  tensor, each of shape (batch, length), is a parameter: \<open>gp_x\<close> for the pair
  applied to the input and \<open>gp_t\<close> for the pair applied to the target. The two
  projections exist when \<^verbatim>\<open>gp\<close> is set, and only then.
\<close>

datatype kl_value = KlInt int | KlTensor real

record process_model =
  pm_encoder :: conv_stack
  musig :: linear
  pm_decoder :: conv_stack
  pm_norm :: LayerNorm
  gp_x :: "tensor3 \<Rightarrow> error + (mat \<times> mat)"
  gp_t :: "tensor3 \<Rightarrow> error + (mat \<times> mat)"
  gp_proj :: "(linear \<times> linear) option"
  pm_d :: nat

text \<open>
  \<^verbatim>\<open>process_model.__init__\<close>. The values that the initialisers of the four
  convolutions and of the linear maps draw are parameters, \<open>conv_init\<close> and
  \<open>linear_init\<close>, indexed in the order of construction; batch and layer
  normalisation start from their fixed defaults.
\<close>

definition process_model_init ::
  "(nat \<Rightarrow> real list list list \<times> vec) \<Rightarrow> (nat \<Rightarrow> mat \<times> vec)
   \<Rightarrow> (tensor3 \<Rightarrow> error + (mat \<times> mat)) \<Rightarrow> (tensor3 \<Rightarrow> error + (mat \<times> mat))
   \<Rightarrow> bool \<Rightarrow> nat \<Rightarrow> process_model" where
  "process_model_init conv_init linear_init gpx gpt gp d =
     (let conv = (\<lambda>i. \<lparr>in_channels = d, out_channels = d, kernel_size = 3,
                          padding = nat \<lfloor>(3 - 1) / (2::real)\<rfloor>,
                          conv_weight = fst (conv_init i), conv_bias = snd (conv_init i)\<rparr>);
          bn = \<lparr>num_features = d, bn_eps = 1 / 100000, momentum = 1 / 10,
                bn_weight = replicate d 1, bn_bias = replicate d 0,
                running_mean = replicate d 0, running_var = replicate d 1,
                num_batches_tracked = 0, training = True\<rparr>;
          lin = (\<lambda>i n m. \<lparr>in_features = n, out_features = m, weight = fst (linear_init i),
                             bias = Some (snd (linear_init i))\<rparr>)
      in \<lparr>pm_encoder = \<lparr>conv_a = conv 0, conv_b = conv 1, batch_norm = bn\<rparr>,
          musig = lin 0 d (2 * d),
          pm_decoder = \<lparr>conv_a = conv 2, conv_b = conv 3, batch_norm = bn\<rparr>,
          pm_norm = \<lparr>normalized_shape = d, ln_eps = 1 / 100000,
                     ln_affine = Some (replicate d 1, replicate d 0)\<rparr>,
          gp_x = gpx, gp_t = gpt,
          gp_proj = (if gp then Some (lin 1 1 d, lin 2 1 d) else None),
          pm_d = d\<rparr>)"

text \<open>
  The steps of \<^verbatim>\<open>process_model.forward\<close>: the noise added to the input, the
  encoder with the split of its projection into \<^verbatim>\<open>mu\<close> and \<^verbatim>\<open>sigma\<close>, the
  latent with its decoding, and the loss.
\<close>

definition inject_noise ::
  "process_model \<Rightarrow> store \<Rightarrow> ref \<Rightarrow> tensor3 \<Rightarrow> error + (ref \<times> store)" where
  "inject_noise pm st x eps =
     (case gp_proj pm of
        Some (gp_proj_mean, gp_proj_var) \<Rightarrow>
          bind_res (gp_x pm (st x)) (\<lambda>(mean, co_var).
          bind_res (linear3 gp_proj_mean (unsqueeze_last mean)) (\<lambda>pm_mean.
          bind_res (linear3 gp_proj_var (unsqueeze_last co_var)) (\<lambda>pm_var.
          bind_res (binop3 (\<lambda>a b. a * b) pm_var eps) (\<lambda>ve.
          bind_res (add3 pm_mean (scale3 0.1 ve)) (\<lambda>eps'.
          add_inplace st x eps')))))
      | None \<Rightarrow> add_inplace st x (scale3 0.1 eps))"

definition encode ::
  "process_model \<Rightarrow> tensor3 \<Rightarrow> error + (tensor3 \<times> tensor3 \<times> tensor3 \<times> conv_stack)" where
  "encode pm x_noisy =
     bind_res (conv_stack_forward (pm_encoder pm) (transpose12 x_noisy)) (\<lambda>(h, enc').
     bind_res (linear3 (musig pm) (transpose12 h)) (\<lambda>ms.
     let mu = map (map (slice_to (pm_d pm))) ms;
         sigma = map (map (slice_from (- int (pm_d pm)))) ms
     in Inr (transpose12 h, mu, sigma, enc')))"

definition reparameterize :: "tensor3 \<Rightarrow> tensor3 \<Rightarrow> tensor3 \<Rightarrow> error + tensor3" where
  "reparameterize mu sigma noise =
     bind_res (binop3 (\<lambda>a b. a * b) (map (map (map exp)) (scale3 0.5 sigma)) noise) (\<lambda>en.
     add3 mu en)"

definition decode ::
  "process_model \<Rightarrow> rng \<Rightarrow> tensor3 \<Rightarrow> tensor3
   \<Rightarrow> error + (tensor3 \<times> tensor3 \<times> conv_stack \<times> rng)" where
  "decode pm g mu sigma =
     (case randn_like g sigma of (noise, g') \<Rightarrow>
      bind_res (reparameterize mu sigma noise) (\<lambda>z.
      bind_res (conv_stack_forward (pm_decoder pm) (transpose12 z)) (\<lambda>(yt, dec').
      Inr (z, transpose12 yt, dec', g'))))"

definition kl_of ::
  "(nat \<times> tensor3 \<times> tensor3) option \<Rightarrow> tensor3 \<Rightarrow> tensor3 \<Rightarrow> error + kl_value" where
  "kl_of tstats mu sigma =
     (case tstats of
        None \<Rightarrow> Inr (KlInt 0)
      | Some (s_len, mean_t, co_var_t) \<Rightarrow>
          let mean_t' = map (map mean_list) mean_t;
              co_var_t' = map (map mean_list) co_var_t;
              mu' = map (\<lambda>a. map mean_list (slice_from (- int s_len) a)) mu;
              sigma' = map (\<lambda>a. map mean_list (slice_from (- int s_len) a)) sigma
          in bind_res (normal_kl mean_t' co_var_t' mu' sigma') (\<lambda>t.
             Inr (KlTensor (mean_list (concat t)))))"

definition process_model_forward ::
  "process_model \<Rightarrow> store \<Rightarrow> rng \<Rightarrow> ref \<Rightarrow> tensor3 option
   \<Rightarrow> error + ((tensor3 \<times> kl_value) \<times> process_model \<times> store \<times> rng)" where
  "process_model_forward pm st g x target =
     (case randn_like g (st x) of (eps, g1) \<Rightarrow>
      bind_res (case target of
                  None \<Rightarrow> Inr None
                | Some tg \<Rightarrow>
                    bind_res (gp_t pm tg) (\<lambda>(mean_t, co_var_t).
                    Inr (Some (size1 tg, unsqueeze_last mean_t, unsqueeze_last co_var_t))))
        (\<lambda>tstats.
      bind_res (inject_noise pm st x eps) (\<lambda>(x_noisy, st1).
      bind_res (encode pm (st1 x_noisy)) (\<lambda>(h, mu, sigma, enc').
      bind_res (decode pm g1 mu sigma) (\<lambda>(z, y, dec', g2).
      bind_res (add3 y (st1 x)) (\<lambda>s.
      bind_res (layer_norm3 (pm_norm pm) s) (\<lambda>output.
      bind_res (kl_of tstats mu sigma) (\<lambda>kl_loss.
      Inr ((output, kl_loss), pm\<lparr>pm_encoder := enc', pm_decoder := dec'\<rparr>, st1, g2)))))))))"

text \<open>
  The stack as the specification words it: the softmax runs over the feature
  axis, the second axis of the channels-first tensor.
\<close>

definition conv_stack_forward_spec :: "conv_stack \<Rightarrow> tensor3 \<Rightarrow> error + (tensor3 \<times> conv_stack)" where
  "conv_stack_forward_spec s x =
     bind_res (Conv1d_forward (conv_a s) x) (\<lambda>h1.
     bind_res (Conv1d_forward (conv_b s) h1) (\<lambda>h2.
     bind_res (BatchNorm1d_forward (batch_norm s) h2) (\<lambda>(h3, bn').
     Inr (transpose12 (Softmax_forward (transpose12 h3)), s\<lparr>batch_norm := bn'\<rparr>))))"

text \<open>
  The output as the specification words it: the layer norm of \<^verbatim>\<open>y\<close> plus the
  original input, the tensor as it was before the noise was added.
\<close>

definition process_model_output_spec ::
  "process_model \<Rightarrow> store \<Rightarrow> rng \<Rightarrow> ref \<Rightarrow> error + tensor3" where
  "process_model_output_spec pm st g x =
     (case randn_like g (st x) of (eps, g1) \<Rightarrow>
      bind_res (inject_noise pm st x eps) (\<lambda>(x_noisy, st1).
      bind_res (encode pm (st1 x_noisy)) (\<lambda>(h, mu, sigma, enc').
      bind_res (decode pm g1 mu sigma) (\<lambda>(z, y, dec', g2).
      bind_res (add3 y (st x)) (\<lambda>s.
      layer_norm3 (pm_norm pm) s)))))"




section \<open>The transformer\<close>













section \<open>Observing the strategy calls\<close>

text \<open>
  The attention strategies are classes of other modules of the repository. To
  state which strategy a forward call runs, and with which mask, the strategy
  implementation is wrapped: in place of the attention weights it returns the
  strategy and the mask it was called with.
\<close>

definition report_call :: "'w attn_impl \<Rightarrow> (attn_strategy \<times> mask4 option) attn_impl" where
  "report_call impl strategy q k v attn_mask =
     (case impl strategy q k v attn_mask of
        Inl e \<Rightarrow> Inl e
      | Inr (ctx, w) \<Rightarrow> Inr (ctx, (strategy, attn_mask)))"

text \<open>
  A strategy implementation to run \<^verbatim>\<open>forward\<close> on concrete inputs: it returns
  the values as the context, and no weights.
\<close>

definition values_as_context :: "unit attn_impl" where
  "values_as_context strategy q k v attn_mask = Inr (v, ())"

section \<open>Example modules\<close>

text \<open>
  Small modules on which \<^verbatim>\<open>forward\<close> is run below: width 2, one head, identity
  weights, the default table of 1000 positions.
\<close>

definition identity_linear :: linear where
  "identity_linear = \<lparr>in_features = 2, out_features = 2, weight = [[1, 0], [0, 1]], bias = None\<rparr>"

definition example_attention :: MultiHeadAttention where
  "example_attention =
     \<lparr>WQ = identity_linear, WK = identity_linear, WV = identity_linear, fc = identity_linear,
      device = ''cpu'', d_model = 2, d_k = 2, d_v = 2, n_heads = 1, attn_type = ''ACAT'', seed = 0\<rparr>"

definition example_ffn :: PoswiseFeedForwardNet where
  "example_ffn =
     \<lparr>w_1 = \<lparr>in_features = 2, out_features = 2, weight = [[1, 0], [0, 1]], bias = Some [0, 0]\<rparr>,
      w_2 = \<lparr>in_features = 2, out_features = 2, weight = [[1, 0], [0, 1]], bias = Some [0, 0]\<rparr>\<rparr>"

definition example_norm :: LayerNorm where
  "example_norm = \<lparr>normalized_shape = 2, ln_eps = 1 / 100000, ln_affine = None\<rparr>"

definition example_decoder_layer :: DecoderLayer where
  "example_decoder_layer =
     \<lparr>dec_self_attn = example_attention, dec_enc_attn = example_attention,
      dec_pos_ffn = example_ffn, dec_layer_norm = example_norm\<rparr>"

definition example_decoder :: Decoder where
  "example_decoder =
     \<lparr>dec_pos_emb = projr (PositionalEncoding_init 2 1000), dec_layers = [example_decoder_layer]\<rparr>"

text \<open>
  A process model of width 2 with the convolutions that copy their input, run
  on a batch of two sequences of length 1, and a stream of draws that alternates
  between 1 and -1.
\<close>

definition example_conv_init :: "nat \<Rightarrow> real list list list \<times> vec" where
  "example_conv_init i = ([[[0, 1, 0], [0, 0, 0]], [[0, 0, 0], [0, 1, 0]]], [0, 0])"

definition example_linear_init :: "nat \<Rightarrow> mat \<times> vec" where
  "example_linear_init i =
     (if i = 0 then ([[1, 0], [0, 1], [0, 0], [0, 0]], [0, 0, 0, 0]) else ([[1], [1]], [0, 0]))"

definition constant_gp :: "tensor3 \<Rightarrow> error + (mat \<times> mat)" where
  "constant_gp t = Inr (map (map (\<lambda>r. 0)) t, map (map (\<lambda>r. 1)) t)"

definition example_process_model :: process_model where
  "example_process_model =
     process_model_init example_conv_init example_linear_init constant_gp constant_gp False 2"

definition example_gp_process_model :: process_model where
  "example_gp_process_model =
     process_model_init example_conv_init example_linear_init constant_gp constant_gp True 2"

definition example_conv :: Conv1d where
  "example_conv =
     \<lparr>in_channels = 2, out_channels = 2, kernel_size = 3, padding = 1,
      conv_weight = [[[0, 1, 0], [0, 0, 0]], [[0, 0, 0], [0, 1, 0]]], conv_bias = [0, 0]\<rparr>"

definition example_batch_norm :: BatchNorm1d where
  "example_batch_norm =
     \<lparr>num_features = 2, bn_eps = 1 / 100000, momentum = 1 / 10, bn_weight = [1, 1],
      bn_bias = [0, 0], running_mean = [0, 0], running_var = [1, 1], num_batches_tracked = 0,
      training = True\<rparr>"

definition example_stack :: conv_stack where
  "example_stack = \<lparr>conv_a = example_conv, conv_b = example_conv, batch_norm = example_batch_norm\<rparr>"

definition example_noise :: rng where
  "example_noise i = (if even i then 1 else - 1)"

definition example_store :: store where
  "example_store r = [[[0, 0]], [[0, 0]]]"




section \<open>Verification\<close>

subsection \<open>Helper lemmas\<close>

lemma bind_res_Inr_iff:
  "bind_res m f = Inr y \<longleftrightarrow> (\<exists>x. m = Inr x \<and> f x = Inr y)"
  by (cases m) (simp_all add: bind_res_def)

subsection \<open>The positional table\<close>

lemma mapM_Inr:
  assumes "\<And>x. x \<in> set xs \<Longrightarrow> f x = Inr (g x)"
  shows "mapM f xs = Inr (map g xs)"
  using assms by (induction xs) simp_all

lemma filter_even_upt: "filter even [0..<d] = map (\<lambda>k. 2 * k) [0..<Suc d div 2]"
proof (induction d)
  case 0
  then show ?case by simp
next
  case (Suc d)
  show ?case
  proof (cases "even d")
    case True
    then have "Suc (Suc d) div 2 = Suc (Suc d div 2)" "2 * (Suc d div 2) = d"
      by (auto elim!: evenE)
    with True Suc show ?thesis by simp
  next
    case False
    then have "Suc (Suc d) div 2 = Suc d div 2"
      by (auto elim!: oddE)
    with False Suc show ?thesis by simp
  qed
qed

lemma slots_0: "slots 0 d = map (\<lambda>k. 2 * k) [0..<Suc d div 2]"
  by (simp add: slots_def filter_even_upt)

lemma slots_1: "slots (Suc 0) d = map (\<lambda>k. Suc (2 * k)) [0..<d div 2]"
proof (induction d)
  case 0
  then show ?case by (simp add: slots_def)
next
  case (Suc d)
  have split: "slots (Suc 0) (Suc d) = slots (Suc 0) d @ (if Suc 0 \<le> d \<and> even (d - Suc 0) then [d] else [])"
    by (auto simp: slots_def)
  show ?case
  proof (cases "even d")
    case True
    then have "Suc d div 2 = d div 2" by (auto elim!: evenE)
    moreover from True have "\<not> (Suc 0 \<le> d \<and> even (d - Suc 0))" by auto
    ultimately show ?thesis using Suc split by simp
  next
    case False
    then have "Suc d div 2 = Suc (d div 2)" "Suc (2 * (d div 2)) = d"
      by (auto elim!: oddE)
    moreover from False have "Suc 0 \<le> d \<and> even (d - Suc 0)" by (cases d) auto
    ultimately show ?thesis using Suc split by simp
  qed
qed

lemma length_write_row [simp]: "length (write_row s row vs) = length row"
  by (simp add: write_row_def)

lemma nth_write_row:
  "j < length row \<Longrightarrow>
   write_row s row vs ! j = (if s \<le> j \<and> even (j - s) then vs ! ((j - s) div 2) else row ! j)"
  by (simp add: write_row_def)

lemma setitem_row_ok:
  "length srow = length (slots s (length row)) \<Longrightarrow> setitem_row s row srow = Inr (write_row s row srow)"
  by (simp add: setitem_row_def expand_to_def bind_res_def)

lemma setitem_rows_single:
  "length src = length a \<Longrightarrow>
   setitem_rows s [a] src =
     (case mapM (\<lambda>(row, srow). setitem_row s row srow) (zip a src) of
        Inl e \<Rightarrow> Inl e | Inr r \<Rightarrow> Inr [r])"
  by (simp add: setitem_rows_def expand_to_def bind_res_def split: sum.splits)

lemma length_pe_row [simp]: "length (pe_row d p) = Suc d div 2"
  by (simp add: pe_row_def filter_even_upt)

lemma nth_pe_row:
  "k < Suc d div 2 \<Longrightarrow> pe_row d p ! k = real p / (10000 powr (real (2 * k) / real d))"
  by (simp add: pe_row_def filter_even_upt)

lemma zip_map_same: "zip (map f xs) (map g xs) = map (\<lambda>x. (f x, g x)) xs"
  by (induction xs) auto

lemma sin_step:
  "setitem_rows 0 [replicate L (replicate d 0)] (map (\<lambda>p. map sin (pe_row d p)) [0..<L]) =
   Inr [map (\<lambda>p. write_row 0 (replicate d 0) (map sin (pe_row d p))) [0..<L]]"
proof -
  let ?z = "replicate d (0::real)"
  let ?src = "map (\<lambda>p. map sin (pe_row d p)) [0..<L]"
  have "mapM (\<lambda>(row, srow). setitem_row 0 row srow) (zip (replicate L ?z) ?src) =
        Inr (map (\<lambda>(row, srow). write_row 0 row srow) (zip (replicate L ?z) ?src))"
  proof (rule mapM_Inr)
    fix x assume x: "x \<in> set (zip (replicate L ?z) ?src)"
    obtain row srow where rs: "x = (row, srow)" by (cases x)
    from x rs have "row = ?z" "srow \<in> set ?src"
      by (auto dest: set_zip_leftD set_zip_rightD)
    then have "length srow = length (slots 0 (length row))"
      by (auto simp: slots_0)
    then show "(case x of (row, srow) \<Rightarrow> setitem_row 0 row srow) =
               Inr (case x of (row, srow) \<Rightarrow> write_row 0 row srow)"
      by (simp add: rs setitem_row_ok)
  qed
  moreover have "map (\<lambda>(row, srow). write_row 0 row srow) (zip (replicate L ?z) ?src) =
                 map (\<lambda>p. write_row 0 ?z (map sin (pe_row d p))) [0..<L]"
    by (simp add: zip_replicate1 comp_def)
  ultimately show ?thesis
    by (simp add: setitem_rows_single)
qed

lemma mapM_map: "mapM f (map g xs) = mapM (\<lambda>x. f (g x)) xs"
  by (induction xs) (simp_all split: sum.splits)

lemma mapM_cong:
  "(\<And>x. x \<in> set xs \<Longrightarrow> f x = g x) \<Longrightarrow> mapM f xs = mapM g xs"
  by (induction xs) (simp_all split: sum.splits)

lemma cos_step:
  assumes "\<And>p. p < L \<Longrightarrow> setitem_row (Suc 0) (write_row 0 (replicate d 0) (map sin (pe_row d p)))
               (map cos (pe_row d p)) = r p"
  shows "setitem_rows (Suc 0) [map (\<lambda>p. write_row 0 (replicate d 0) (map sin (pe_row d p))) [0..<L]]
           (map (\<lambda>p. map cos (pe_row d p)) [0..<L]) =
         (case mapM r [0..<L] of Inl e \<Rightarrow> Inl e | Inr rows \<Rightarrow> Inr [rows])"
proof -
  have "mapM (\<lambda>(row, srow). setitem_row (Suc 0) row srow)
          (zip (map (\<lambda>p. write_row 0 (replicate d 0) (map sin (pe_row d p))) [0..<L])
               (map (\<lambda>p. map cos (pe_row d p)) [0..<L])) = mapM r [0..<L]"
    unfolding zip_map_same mapM_map
    by (rule mapM_cong) (use assms in auto)
  then show ?thesis by (simp add: setitem_rows_single)
qed

lemma width_cases:
  "(Suc d div 2 \<noteq> d div 2 \<and> Suc d div 2 \<noteq> Suc 0) = (odd d \<and> 3 \<le> d)"
  by presburger

lemma length_slots_0 [simp]: "length (slots 0 d) = Suc d div 2"
  by (simp add: slots_0)

lemma length_slots_1 [simp]: "length (slots (Suc 0) d) = d div 2"
  by (simp add: slots_1)

lemma PositionalEncoding_init_unfold:
  "PositionalEncoding_init d L =
     (if odd d \<and> 3 \<le> d then Inl RuntimeError
      else case mapM (\<lambda>p. setitem_row (Suc 0) (write_row 0 (replicate d 0) (map sin (pe_row d p)))
                            (map cos (pe_row d p))) [0..<L] of
             Inl e \<Rightarrow> Inl e | Inr rows \<Rightarrow> Inr \<lparr>P = \<lparr>shape3 = (1, L, d), data3 = [rows]\<rparr>\<rparr>)"
proof -
  have X: "map (\<lambda>p. map (\<lambda>j. real p / (10000 powr (real j / real d))) (filter even [0..<d])) [0..<L]
           = map (pe_row d) [0..<L]"
    by (simp add: pe_row_def)
  have len: "length (filter even [0..<d]) = Suc d div 2"
    by (simp add: filter_even_upt)
  show ?thesis
    unfolding PositionalEncoding_init_def Let_def X len
    by (simp add: setitem_step2_def zeros3_def map2d_def comp_def sin_step bind_res_def
        cos_step[OF refl] width_cases split: sum.splits)
qed

lemma row_even:
  assumes "even d"
  shows "setitem_row (Suc 0) (write_row 0 (replicate d 0) (map sin (pe_row d p))) (map cos (pe_row d p)) =
         Inr (map (pe_entry d p) [0..<d])"
proof -
  from assms have half: "Suc d div 2 = d div 2" by (auto elim!: evenE)
  have "setitem_row (Suc 0) (write_row 0 (replicate d 0) (map sin (pe_row d p))) (map cos (pe_row d p)) =
        Inr (write_row (Suc 0) (write_row 0 (replicate d 0) (map sin (pe_row d p))) (map cos (pe_row d p)))"
    by (rule setitem_row_ok) (simp add: slots_1 half)
  moreover have "write_row (Suc 0) (write_row 0 (replicate d 0) (map sin (pe_row d p))) (map cos (pe_row d p)) =
                 map (pe_entry d p) [0..<d]"
  proof (rule nth_equalityI)
    show "length (write_row (Suc 0) (write_row 0 (replicate d 0) (map sin (pe_row d p))) (map cos (pe_row d p))) =
          length (map (pe_entry d p) [0..<d])" by simp
  next
    fix j assume "j < length (write_row (Suc 0) (write_row 0 (replicate d 0) (map sin (pe_row d p))) (map cos (pe_row d p)))"
    then have j: "j < d" by simp
    show "write_row (Suc 0) (write_row 0 (replicate d 0) (map sin (pe_row d p))) (map cos (pe_row d p)) ! j =
          map (pe_entry d p) [0..<d] ! j"
    proof (cases "even j")
      case True
      then have "2 * (j div 2) = j" "j div 2 < Suc d div 2" "\<not> (Suc 0 \<le> j \<and> even (j - Suc 0))"
        using j by (auto elim!: evenE)
      with True j show ?thesis
        by (simp add: nth_write_row nth_pe_row pe_entry_def)
    next
      case False
      then have "2 * ((j - Suc 0) div 2) = j - Suc 0" "(j - Suc 0) div 2 < Suc d div 2" "Suc 0 \<le> j \<and> even (j - Suc 0)"
        using j assms by (auto elim!: oddE evenE)
      with False j show ?thesis
        by (simp add: nth_write_row nth_pe_row pe_entry_def)
    qed
  qed
  ultimately show ?thesis by simp
qed

lemma row_one:
  "setitem_row (Suc 0) (write_row 0 (replicate (Suc 0) 0) (map sin (pe_row (Suc 0) p))) (map cos (pe_row (Suc 0) p)) =
   Inr (map (pe_entry (Suc 0) p) [0..<Suc 0])"
  by (simp add: setitem_row_def expand_to_def bind_res_def slots_def write_row_def pe_row_def pe_entry_def)

lemma PositionalEncoding_init_table:
  assumes "even d \<or> d = Suc 0"
  shows "PositionalEncoding_init d L = Inr \<lparr>P = \<lparr>shape3 = (1, L, d), data3 = [pe_table d L]\<rparr>\<rparr>"
proof -
  have "mapM (\<lambda>p. setitem_row (Suc 0) (write_row 0 (replicate d 0) (map sin (pe_row d p)))
                       (map cos (pe_row d p))) [0..<L] =
        Inr (map (\<lambda>p. map (pe_entry d p) [0..<d]) [0..<L])"
  proof (rule mapM_Inr)
    fix p
    from assms show "setitem_row (Suc 0) (write_row 0 (replicate d 0) (map sin (pe_row d p)))
                          (map cos (pe_row d p)) = Inr (map (pe_entry d p) [0..<d])"
      using row_even[of d p] row_one[of p] by blast
  qed
  moreover from assms have "\<not> (odd d \<and> 3 \<le> d)" by auto
  ultimately show ?thesis by (simp add: PositionalEncoding_init_unfold pe_table_def)
qed

lemma PositionalEncoding_init_odd_fails:
  assumes "odd d" "3 \<le> d"
  shows "PositionalEncoding_init d L = Inl RuntimeError"
  using assms by (simp add: PositionalEncoding_init_unfold)

lemma add1_same:
  "length v = length r \<Longrightarrow> add1 v r = Inr (map (\<lambda>(a, b). a + b) (zip v r))"
  by (simp add: add1_def broadcast2_def mapM_Inr case_prod_unfold)

lemma add2_same:
  assumes "length x = length R" "\<And>v r. (v, r) \<in> set (zip x R) \<Longrightarrow> length v = length r"
  shows "add2 x R = Inr (map (\<lambda>(v, r). map (\<lambda>(a, b). a + b) (zip v r)) (zip x R))"
proof -
  have "mapM (\<lambda>(v, r). add1 v r) (zip x R) =
        Inr (map (\<lambda>(v, r). map (\<lambda>(a, b). a + b) (zip v r)) (zip x R))"
    by (rule mapM_Inr) (auto simp: add1_same assms(2))
  with assms(1) show ?thesis by (simp add: add2_def broadcast2_def)
qed

lemma add3_single: "add3 X [R] = mapM (\<lambda>x. add2 x R) X"
proof (cases X)
  case Nil
  then show ?thesis by (simp add: add3_def broadcast2_def)
next
  case (Cons x xs)
  then show ?thesis by (cases xs) (simp_all add: add3_def broadcast2_def split: sum.splits)
qed

lemma take_pe_table: "take T (pe_table d L) = pe_table d (min T L)"
proof (cases "T \<le> L")
  case True
  then show ?thesis by (simp add: pe_table_def take_map min_def)
next
  case False
  then show ?thesis by (simp add: pe_table_def min_def)
qed

lemma PositionalEncoding_init_Inr:
  assumes "PositionalEncoding_init d L = Inr pe"
  shows "even d \<or> d = Suc 0" "P pe = \<lparr>shape3 = (1, L, d), data3 = [pe_table d L]\<rparr>"
proof -
  show d: "even d \<or> d = Suc 0"
  proof (rule ccontr)
    assume "\<not> (even d \<or> d = Suc 0)"
    then have "odd d" "3 \<le> d" by presburger+
    from PositionalEncoding_init_odd_fails[OF this] assms show False by simp
  qed
  from PositionalEncoding_init_table[OF d] assms
  show "P pe = \<lparr>shape3 = (1, L, d), data3 = [pe_table d L]\<rparr>"
    by auto
qed

lemma broadcast_size_one [simp]: "broadcast_size B (Suc 0) = Some B"
  by (simp add: broadcast_size_def)

lemma broadcast_size_same [simp]: "broadcast_size d d = Some d"
  by (simp add: broadcast_size_def)

lemma forward_unfold:
  assumes "PositionalEncoding_init d L = Inr pe" "shape3 X = (B, T, d)"
  shows "PositionalEncoding_forward pe X =
           (case broadcast_size T (min T L) of
              None \<Rightarrow> Inl RuntimeError
            | Some t \<Rightarrow>
                (case mapM (\<lambda>x. add2 x (pe_table d (min T L))) (data3 X) of
                   Inl e \<Rightarrow> Inl e
                 | Inr r \<Rightarrow> Inr \<lparr>shape3 = (B, t, d), data3 = r\<rparr>))"
  unfolding PositionalEncoding_forward_def PositionalEncoding_init_Inr(2)[OF assms(1)]
  by (simp add: assms(2) add_shaped3_def slice1_to_def slice_to_def add3_single take_pe_table
      bind_res_def split: option.splits sum.splits)

lemma length_pe_table [simp]: "length (pe_table d L) = L"
  by (simp add: pe_table_def)

lemma nth_pe_table: "p < L \<Longrightarrow> pe_table d L ! p = map (pe_entry d p) [0..<d]"
  by (simp add: pe_table_def)

lemma well_shaped_iff:
  "well_shaped X \<longleftrightarrow>
     length (data3 X) = fst (shape3 X) \<and>
     (\<forall>x\<in>set (data3 X). length x = fst (snd (shape3 X)) \<and>
        (\<forall>v\<in>set x. length v = snd (snd (shape3 X))))"
  by (auto simp: well_shaped_def list_all_iff split: prod.splits)

lemma PositionalEncoding_forward_fits:
  assumes init: "PositionalEncoding_init d L = Inr pe"
    and shape: "shape3 X = (B, T, d)" "well_shaped X"
    and fits: "T \<le> L"
  shows "PositionalEncoding_forward pe X =
         Inr \<lparr>shape3 = (B, T, d),
              data3 = map (\<lambda>x. map (\<lambda>(v, r). map (\<lambda>(a, b). a + b) (zip v r)) (zip x (pe_table d T)))
                        (data3 X)\<rparr>"
proof -
  from shape have sh: "\<forall>x\<in>set (data3 X). length x = T \<and> (\<forall>v\<in>set x. length v = d)"
    by (simp add: well_shaped_iff)
  have "mapM (\<lambda>x. add2 x (pe_table d T)) (data3 X) =
        Inr (map (\<lambda>x. map (\<lambda>(v, r). map (\<lambda>(a, b). a + b) (zip v r)) (zip x (pe_table d T))) (data3 X))"
  proof (rule mapM_Inr)
    fix x assume x: "x \<in> set (data3 X)"
    show "add2 x (pe_table d T) =
          Inr (map (\<lambda>(v, r). map (\<lambda>(a, b). a + b) (zip v r)) (zip x (pe_table d T)))"
    proof (rule add2_same)
      from x sh show "length x = length (pe_table d T)" by simp
    next
      fix v r assume "(v, r) \<in> set (zip x (pe_table d T))"
      then have "v \<in> set x" "r \<in> set (pe_table d T)"
        by (auto dest: set_zip_leftD set_zip_rightD)
      with x sh show "length v = length r" by (auto simp: pe_table_def)
    qed
  qed
  with fits show ?thesis by (simp add: forward_unfold[OF init shape(1)] min_def)
qed

lemma PositionalEncoding_forward_too_long:
  assumes init: "PositionalEncoding_init d L = Inr pe"
    and shape: "shape3 X = (B, T, d)"
    and long: "L < T" "L \<noteq> Suc 0" "T \<noteq> Suc 0"
  shows "PositionalEncoding_forward pe X = Inl RuntimeError"
  using long by (simp add: forward_unfold[OF init shape] min_def broadcast_size_def)

lemma add2_one_row:
  assumes "length x \<noteq> Suc 0" "\<And>v. v \<in> set x \<Longrightarrow> length v = length r"
  shows "add2 x [r] = Inr (map (\<lambda>v. map (\<lambda>(a, b). a + b) (zip v r)) x)"
proof -
  have "mapM (\<lambda>v. add1 v r) x = Inr (map (\<lambda>v. map (\<lambda>(a, b). a + b) (zip v r)) x)"
    by (rule mapM_Inr) (simp add: add1_same assms(2))
  with assms(1) show ?thesis by (simp add: add2_def broadcast2_def)
qed

lemma add2_no_row: "length x = Suc 0 \<Longrightarrow> add2 x [] = Inr []"
  by (simp add: add2_def broadcast2_def)

lemma PositionalEncoding_forward_broadcasts:
  assumes init: "PositionalEncoding_init d L = Inr pe"
    and shape: "shape3 X = (B, T, d)" "well_shaped X"
    and long: "L < T" "L = Suc 0 \<or> T = Suc 0"
  shows "\<exists>Y. PositionalEncoding_forward pe X = Inr Y"
proof -
  from shape have sh: "\<forall>x\<in>set (data3 X). length x = T \<and> (\<forall>v\<in>set x. length v = d)"
    by (simp add: well_shaped_iff)
  from long(2) show ?thesis
  proof
    assume L: "L = Suc 0"
    have "mapM (\<lambda>x. add2 x (pe_table d (Suc 0))) (data3 X) =
          Inr (map (\<lambda>x. map (\<lambda>v. map (\<lambda>(a, b). a + b) (zip v (map (pe_entry d 0) [0..<d]))) x) (data3 X))"
    proof (rule mapM_Inr)
      fix x assume x: "x \<in> set (data3 X)"
      have tab: "pe_table d (Suc 0) = [map (pe_entry d 0) [0..<d]]"
        by (simp add: pe_table_def)
      show "add2 x (pe_table d (Suc 0)) =
            Inr (map (\<lambda>v. map (\<lambda>(a, b). a + b) (zip v (map (pe_entry d 0) [0..<d]))) x)"
        unfolding tab using x sh long(1) L by (intro add2_one_row) auto
    qed
    with long(1) L show ?thesis
      by (simp add: forward_unfold[OF init shape(1)] min_def broadcast_size_def)
  next
    assume T: "T = Suc 0"
    with long(1) have L: "L = 0" by simp
    have "mapM (\<lambda>x. add2 x (pe_table d 0)) (data3 X) = Inr (map (\<lambda>x. []) (data3 X))"
    proof (rule mapM_Inr)
      fix x assume x: "x \<in> set (data3 X)"
      with sh T have "length x = Suc 0" by simp
      then show "add2 x (pe_table d 0) = Inr []"
        by (simp add: pe_table_def add2_no_row)
    qed
    with T L show ?thesis
      by (simp add: forward_unfold[OF init shape(1)] min_def broadcast_size_def)
  qed
qed


subsection \<open>Calls of the attention strategy\<close>

lemma report_call_Inr:
  "report_call impl s q k v m = Inr (c, s', m') \<Longrightarrow> s' = s \<and> m' = m"
  by (auto simp: report_call_def split: sum.splits prod.splits)

lemma call_strategy_Inr:
  assumes "call_strategy impl s q k v m = Inr r"
  shows "\<exists>q' k' v'. impl s q' k' v' m = Inr r"
  using assms by (cases s) (auto simp: call_strategy_def)

lemma MultiHeadAttention_forward_calls:
  assumes "MultiHeadAttention_forward impl m Q K V attn_mask = Inr (output, attn)"
  shows "\<exists>l_k q k v ctx.
           impl (select_strategy m l_k (attn_mask \<noteq> None)) q k v
             (map_option (repeat_heads (n_heads m)) attn_mask) = Inr (ctx, attn)"
proof -
  from assms obtain l_k q k v ctx where
    "call_strategy impl (select_strategy m l_k (attn_mask \<noteq> None)) q k v
       (map_option (repeat_heads (n_heads m)) attn_mask) = Inr (ctx, attn)"
    by (auto simp add: MultiHeadAttention_forward_def Let_def bind_res_Inr_iff split: prod.splits)
  from call_strategy_Inr[OF this] show ?thesis by blast
qed

lemma MultiHeadAttention_forward_report:
  assumes "MultiHeadAttention_forward (report_call impl) m Q K V attn_mask = Inr (output, s, am)"
  shows "(\<exists>l_k. s = select_strategy m l_k (attn_mask \<noteq> None)) \<and>
         am = map_option (repeat_heads (n_heads m)) attn_mask"
  using MultiHeadAttention_forward_calls[OF assms] by (auto dest: report_call_Inr)

lemmas run_simps = bind_res_def linear3_def linear_vec_def dot_def view4_def view3_def pieces_def
  transpose12_def transpose_m_def size0_def size1_def size2_def repeat_heads_def
  call_strategy_def select_strategy_def report_call_def values_as_context_def Let_def upt_conv_Cons

lemma bogus_run:
  "MultiHeadAttention_forward (report_call values_as_context)
     (projr (MultiHeadAttention_init [[1, 0], [0, 1]] [[1, 0], [0, 1]] [[1, 0], [0, 1]] [[1, 0], [0, 1]]
        2 2 2 1 ''cpu'' ''bogus'' 0))
     [[[1, 2], [3, 4]]] [[[1, 2], [3, 4]]] [[[1, 2], [3, 4]]] None
   = Inr ([[[1, 2], [3, 4]]], AutoCorrelation, None)"
  by (simp add: MultiHeadAttention_init_def MultiHeadAttention_forward_def run_simps)


subsection \<open>Construction of the positional table\<close>

text \<open>
  C10, as amended. For every odd \<open>d_hid\<close> of 3 or more the constructor fails,
  whatever \<open>max_len\<close> is, with the shape mismatch of the cosine assignment. For
  \<open>d_hid = 1\<close> it does not fail: the odd-indexed slice is empty, the one cosine
  column is expanded to it, and the constructor returns a table.
\<close>

theorem PositionalEncoding_init_odd:
  assumes "odd d_hid"
  shows "(PositionalEncoding_init d_hid max_len = Inl RuntimeError \<longleftrightarrow> 3 \<le> d_hid) \<and>
         (\<not> isl (PositionalEncoding_init d_hid max_len) \<longleftrightarrow> d_hid = 1)"
proof (cases "3 \<le> d_hid")
  case True
  with assms show ?thesis
    by (simp add: PositionalEncoding_init_odd_fails)
next
  case False
  with assms have d: "d_hid = Suc 0" by presburger
  then show ?thesis using PositionalEncoding_init_table[of d_hid max_len] by simp
qed

theorem PositionalEncoding_init_odd_witness:
  "odd (3::nat) \<and> PositionalEncoding_init 3 1000 = Inl RuntimeError
   \<and> isl (PositionalEncoding_init 3 1000)"
  using PositionalEncoding_init_odd [of 3 1000] by simp

text \<open>
  C10 as stated fails at the odd width 1: with the default \<open>max_len\<close> the
  constructor returns a table.
\<close>

theorem PositionalEncoding_init_width_one_counterexample:
  "odd (1::nat) \<and> \<not> isl (PositionalEncoding_init 1 1000)"
  using PositionalEncoding_init_table [of 1 1000] by simp

subsection \<open>Adding the positional signal\<close>

text \<open>
  C8, as amended. Let the table be built for \<open>d_hid\<close> and \<open>max_len\<close>, and let the
  input have shape \<open>(B, T, d_hid)\<close>. If \<open>T \<le> max_len\<close>, \<^verbatim>\<open>forward\<close> returns a
  tensor of the same shape, the input plus the table cut to \<open>T\<close> rows: entry
  \<open>(n, t, j)\<close> is the input's plus \<open>pe_entry d_hid t j\<close>, the sine at even \<open>j\<close> and
  the cosine at odd \<open>j\<close>. If \<open>T > max_len\<close>, the slice of the table is clamped to
  \<open>max_len\<close> rows and the addition raises the backend's shape-mismatch
  \<^verbatim>\<open>RuntimeError\<close>, unless one of \<open>max_len\<close> and \<open>T\<close> is 1, where the addition
  broadcasts and the call returns. No call raises an index error.
\<close>

theorem PositionalEncoding_forward_contract:
  assumes "PositionalEncoding_init d_hid max_len = Inr pe"
    and "shape3 X = (B, T, d_hid)"
    and "well_shaped X"
  shows "(T \<le> max_len \<longrightarrow>
            (\<exists>Y. PositionalEncoding_forward pe X = Inr Y \<and> shape3 Y = (B, T, d_hid) \<and>
               well_shaped Y \<and>
               (\<forall>n<B. \<forall>t<T. \<forall>j<d_hid.
                  data3 Y ! n ! t ! j = data3 X ! n ! t ! j + pe_entry d_hid t j))) \<and>
         (max_len < T \<longrightarrow>
            (PositionalEncoding_forward pe X = Inl RuntimeError \<longleftrightarrow> max_len \<noteq> 1 \<and> T \<noteq> 1)) \<and>
         PositionalEncoding_forward pe X \<noteq> Inl IndexError"
proof -
  from assms(2,3) have len: "length (data3 X) = B"
    and sh: "\<forall>x\<in>set (data3 X). length x = T \<and> (\<forall>v\<in>set x. length v = d_hid)"
    by (simp_all add: well_shaped_iff)
  let ?D = "map (\<lambda>x. map (\<lambda>(v, r). map (\<lambda>(a, b). a + b) (zip v r)) (zip x (pe_table d_hid T))) (data3 X)"
  let ?Y = "\<lparr>shape3 = (B, T, d_hid), data3 = ?D\<rparr>"
  have fits: "PositionalEncoding_forward pe X = Inr ?Y" if "T \<le> max_len"
    using assms that by (rule PositionalEncoding_forward_fits)
  have entries: "length (?D ! n) = T \<and>
          (\<forall>t<T. length (?D ! n ! t) = d_hid \<and>
             (\<forall>j<d_hid. ?D ! n ! t ! j = data3 X ! n ! t ! j + pe_entry d_hid t j))" if n: "n < B" for n
  proof -
    from n len have xn: "data3 X ! n \<in> set (data3 X)" by simp
    with sh have ln: "length (data3 X ! n) = T" by blast
    show ?thesis
    proof (intro conjI allI impI)
      show "length (?D ! n) = T" using n len ln by simp
    next
      fix t assume t: "t < T"
      with ln have "data3 X ! n ! t \<in> set (data3 X ! n)" by simp
      with sh xn have lv: "length (data3 X ! n ! t) = d_hid" by blast
      show "length (?D ! n ! t) = d_hid" using n len ln t lv by (simp add: nth_pe_table)
      fix j assume "j < d_hid"
      then show "?D ! n ! t ! j = data3 X ! n ! t ! j + pe_entry d_hid t j"
        using n len ln t lv by (simp add: nth_pe_table)
    qed
  qed
  have wsY: "well_shaped ?Y"
    unfolding well_shaped_iff
  proof (intro conjI ballI)
    show "length (data3 ?Y) = fst (shape3 ?Y)" using len by simp
  next
    fix y assume "y \<in> set (data3 ?Y)"
    then obtain n where n: "n < B" and y: "y = ?D ! n"
      using len by (auto simp: in_set_conv_nth)
    from entries[OF n] show "length y = fst (snd (shape3 ?Y))" by (simp add: y)
    fix v assume "v \<in> set y"
    then obtain t where t: "t < length y" and v: "v = y ! t"
      by (auto simp: in_set_conv_nth)
    with entries[OF n] y show "length v = snd (snd (shape3 ?Y))" by simp
  qed
  have part1: "T \<le> max_len \<longrightarrow>
            (\<exists>Y. PositionalEncoding_forward pe X = Inr Y \<and> shape3 Y = (B, T, d_hid) \<and>
               well_shaped Y \<and>
               (\<forall>n<B. \<forall>t<T. \<forall>j<d_hid.
                  data3 Y ! n ! t ! j = data3 X ! n ! t ! j + pe_entry d_hid t j))"
  proof
    assume le: "T \<le> max_len"
    have "\<forall>n<B. \<forall>t<T. \<forall>j<d_hid. data3 ?Y ! n ! t ! j = data3 X ! n ! t ! j + pe_entry d_hid t j"
      using entries by simp
    with fits[OF le] wsY show "\<exists>Y. PositionalEncoding_forward pe X = Inr Y \<and> shape3 Y = (B, T, d_hid) \<and>
               well_shaped Y \<and>
               (\<forall>n<B. \<forall>t<T. \<forall>j<d_hid.
                  data3 Y ! n ! t ! j = data3 X ! n ! t ! j + pe_entry d_hid t j)"
      by (intro exI[of _ ?Y]) simp
  qed
  have part2: "max_len < T \<longrightarrow>
            (PositionalEncoding_forward pe X = Inl RuntimeError \<longleftrightarrow> max_len \<noteq> 1 \<and> T \<noteq> 1)"
  proof
    assume long: "max_len < T"
    show "PositionalEncoding_forward pe X = Inl RuntimeError \<longleftrightarrow> max_len \<noteq> 1 \<and> T \<noteq> 1"
    proof (cases "max_len = Suc 0 \<or> T = Suc 0")
      case True
      from PositionalEncoding_forward_broadcasts[OF assms long True] True
      show ?thesis by auto
    next
      case False
      with PositionalEncoding_forward_too_long[OF assms(1,2) long]
      show ?thesis by simp
    qed
  qed
  have part3: "PositionalEncoding_forward pe X \<noteq> Inl IndexError"
  proof (cases "T \<le> max_len")
    case True
    from fits[OF this] show ?thesis by simp
  next
    case False
    then have long: "max_len < T" by simp
    show ?thesis
    proof (cases "max_len = Suc 0 \<or> T = Suc 0")
      case True
      from PositionalEncoding_forward_broadcasts[OF assms long True]
      show ?thesis by auto
    next
      case False
      with PositionalEncoding_forward_too_long[OF assms(1,2) long]
      show ?thesis by simp
    qed
  qed
  from part1 part2 part3 show ?thesis by blast
qed

theorem PositionalEncoding_forward_contract_witness:
  "(\<exists>Y. PositionalEncoding_forward (projr (PositionalEncoding_init 2 1000))
          \<lparr>shape3 = (1, 1, 2), data3 = [[[5, 7]]]\<rparr> = Inr Y \<and>
        shape3 Y = (1, 1, 2) \<and> data3 Y ! 0 ! 0 ! 0 = 5 \<and> data3 Y ! 0 ! 0 ! 1 = 8) \<and>
   PositionalEncoding_forward (projr (PositionalEncoding_init 2 1000))
     \<lparr>shape3 = (0, 1001, 2), data3 = []\<rparr> = Inl RuntimeError"
proof -
  have init: "PositionalEncoding_init 2 1000 = Inr (projr (PositionalEncoding_init 2 1000))"
    by (simp add: PositionalEncoding_init_table)
  from PositionalEncoding_forward_contract
         [OF init, of "\<lparr>shape3 = (1, 1, 2), data3 = [[[5, 7]]]\<rparr>" 1 1]
  have "\<exists>Y. PositionalEncoding_forward (projr (PositionalEncoding_init 2 1000))
          \<lparr>shape3 = (1, 1, 2), data3 = [[[5, 7]]]\<rparr> = Inr Y \<and>
        shape3 Y = (1, 1, 2) \<and>
        data3 Y ! 0 ! 0 ! 0 = 5 + pe_entry 2 0 0 \<and> data3 Y ! 0 ! 0 ! 1 = 7 + pe_entry 2 0 1"
    by (auto simp: well_shaped_def numeral_2_eq_2)
  moreover from PositionalEncoding_forward_contract
         [OF init, of "\<lparr>shape3 = (0, 1001, 2), data3 = []\<rparr>" 0 1001]
  have "PositionalEncoding_forward (projr (PositionalEncoding_init 2 1000))
          \<lparr>shape3 = (0, 1001, 2), data3 = []\<rparr> = Inl RuntimeError"
    by (simp add: well_shaped_def)
  ultimately show ?thesis by (simp add: pe_entry_def)
qed

text \<open>
  C8 as stated fails on the kind of the error: with the default table of 1000
  rows, an input of 1001 time steps does not raise an index error.
\<close>

theorem PositionalEncoding_forward_too_long_counterexample:
  "PositionalEncoding_forward (projr (PositionalEncoding_init 2 1000))
     \<lparr>shape3 = (1, 1001, 2), data3 = [replicate 1001 [0, 0]]\<rparr> \<noteq> Inl IndexError"
proof -
  have init: "PositionalEncoding_init 2 1000 = Inr (projr (PositionalEncoding_init 2 1000))"
    by (simp add: PositionalEncoding_init_table)
  have "PositionalEncoding_forward (projr (PositionalEncoding_init 2 1000))
          \<lparr>shape3 = (1, 1001, 2), data3 = [replicate 1001 [0, 0]]\<rparr> = Inl RuntimeError"
    by (rule PositionalEncoding_forward_too_long [OF init, of _ 1 1001]) simp_all
  then show ?thesis by simp
qed
subsection \<open>Attention strategy tags\<close>

text \<open>
  C2, as amended. \<^verbatim>\<open>MultiHeadAttention.__init__\<close> never fails on the tag: for
  every string it returns a module that stores the tag as it is. Every
  \<^verbatim>\<open>forward\<close> call that returns has run the one strategy that the chain of
  tests selects for the tag: \<^verbatim>\<open>ACAT\<close> for \<^verbatim>\<open>"ACAT"\<close>, else \<^verbatim>\<open>KittyCatConv\<close> for a
  tag that contains \<^verbatim>\<open>"KittyCat"\<close>, else \<^verbatim>\<open>BasicAttn\<close>, \<^verbatim>\<open>LogTrans\<close> and
  \<^verbatim>\<open>ProbAttention\<close> for \<^verbatim>\<open>"basic_attn"\<close>, \<^verbatim>\<open>"LogTrans"\<close> and \<^verbatim>\<open>"informer"\<close>, and
  \<^verbatim>\<open>AutoCorrelation\<close> for every other tag.
\<close>

theorem MultiHeadAttention_tag_unchecked:
  "\<exists>m. MultiHeadAttention_init wq wk wv wfc dm dk dv nh dev tag sd = Inr m \<and> attn_type m = tag \<and>
     (\<forall>(impl :: 'w attn_impl) Q K V amask out s am.
        MultiHeadAttention_forward (report_call impl) m Q K V amask = Inr (out, s, am) \<longrightarrow>
        (\<exists>l_k. s = (if tag = ''ACAT'' then ACAT dk dev nh l_k sd
                    else if py_in ''KittyCat'' tag then KittyCatConv dk dev nh l_k sd
                    else if tag = ''basic_attn'' then BasicAttn dk dev sd
                    else if tag = ''LogTrans'' then LogTrans dk dev sd
                    else if tag = ''informer'' then ProbAttention (amask \<noteq> None) sd
                    else AutoCorrelation)))"
proof -
  let ?m = "\<lparr>WQ = \<lparr>in_features = dm, out_features = dk * nh, weight = wq, bias = None\<rparr>,
          WK = \<lparr>in_features = dm, out_features = dk * nh, weight = wk, bias = None\<rparr>,
          WV = \<lparr>in_features = dm, out_features = dv * nh, weight = wv, bias = None\<rparr>,
          fc = \<lparr>in_features = nh * dv, out_features = dm, weight = wfc, bias = None\<rparr>,
          device = dev, d_model = dm, d_k = dk, d_v = dv, n_heads = nh,
          attn_type = tag, seed = sd\<rparr>"
  have "MultiHeadAttention_init wq wk wv wfc dm dk dv nh dev tag sd = Inr ?m"
    by (simp add: MultiHeadAttention_init_def)
  moreover have "attn_type ?m = tag" by simp
  moreover have "\<exists>l_k. s = (if tag = ''ACAT'' then ACAT dk dev nh l_k sd
                    else if py_in ''KittyCat'' tag then KittyCatConv dk dev nh l_k sd
                    else if tag = ''basic_attn'' then BasicAttn dk dev sd
                    else if tag = ''LogTrans'' then LogTrans dk dev sd
                    else if tag = ''informer'' then ProbAttention (amask \<noteq> None) sd
                    else AutoCorrelation)"
    if "MultiHeadAttention_forward (report_call impl) ?m Q K V amask = Inr (out, s, am)"
    for impl :: "'w attn_impl" and Q K V amask out s am
  proof -
    from MultiHeadAttention_forward_report[OF that] obtain l_k where
      "s = select_strategy ?m l_k (amask \<noteq> None)" by blast
    then show ?thesis by (intro exI[of _ l_k]) (simp add: select_strategy_def)
  qed
  ultimately show ?thesis by blast
qed

theorem MultiHeadAttention_tag_unchecked_witness:
  "\<exists>m. MultiHeadAttention_init [[1, 0], [0, 1]] [[1, 0], [0, 1]] [[1, 0], [0, 1]] [[1, 0], [0, 1]]
         2 2 2 1 ''cpu'' ''bogus'' 0 = Inr m \<and> attn_type m = ''bogus'' \<and>
       \<not> isl (MultiHeadAttention_forward (report_call values_as_context) m
                [[[1, 2], [3, 4]]] [[[1, 2], [3, 4]]] [[[1, 2], [3, 4]]] None) \<and>
       fst (snd (projr (MultiHeadAttention_forward (report_call values_as_context) m
                [[[1, 2], [3, 4]]] [[[1, 2], [3, 4]]] [[[1, 2], [3, 4]]] None))) = AutoCorrelation"
proof -
  let ?run = "\<lambda>m. MultiHeadAttention_forward (report_call values_as_context) m
                [[[1, 2], [3, 4]]] [[[1, 2], [3, 4]]] [[[1, 2], [3, 4]]] None"
  from MultiHeadAttention_tag_unchecked
         [where ?'w = unit,
          of "[[1, 0], [0, 1]]" "[[1, 0], [0, 1]]" "[[1, 0], [0, 1]]" "[[1, 0], [0, 1]]"
             2 2 2 1 "''cpu''" "''bogus''" 0]
  obtain m where m: "MultiHeadAttention_init [[1, 0], [0, 1]] [[1, 0], [0, 1]] [[1, 0], [0, 1]]
                       [[1, 0], [0, 1]] 2 2 2 1 ''cpu'' ''bogus'' 0 = Inr m"
    and tag: "attn_type m = ''bogus''"
    and all: "\<forall>(impl :: unit attn_impl) Q K V amask out s am.
        MultiHeadAttention_forward (report_call impl) m Q K V amask = Inr (out, s, am) \<longrightarrow>
        s = AutoCorrelation"
    by (elim exE conjE) simp
  from all have run: "MultiHeadAttention_forward (report_call impl) m Q K V amask = Inr (out, s, am) \<Longrightarrow>
        s = AutoCorrelation" for impl :: "unit attn_impl" and Q K V amask out s am
    by blast
  from m have pm: "m = projr (MultiHeadAttention_init [[1, 0], [0, 1]] [[1, 0], [0, 1]] [[1, 0], [0, 1]]
                       [[1, 0], [0, 1]] 2 2 2 1 ''cpu'' ''bogus'' 0)" by simp
  have ok: "\<not> isl (?run m)" unfolding pm bogus_run by simp
  then obtain out s am where r: "?run m = Inr (out, s, am)"
    by (cases "?run m") auto
  from run[OF r] r have "fst (snd (projr (?run m))) = AutoCorrelation" by simp
  with m tag ok show ?thesis by blast
qed

text \<open>
  C2 as stated fails: the tag \<^verbatim>\<open>"bogus"\<close> names no strategy, yet construction
  succeeds and the first forward call runs \<^verbatim>\<open>AutoCorrelation\<close>.
\<close>

theorem MultiHeadAttention_unknown_tag_counterexample:
  "\<not> isl (MultiHeadAttention_init [[1, 0], [0, 1]] [[1, 0], [0, 1]] [[1, 0], [0, 1]] [[1, 0], [0, 1]]
            2 2 2 1 ''cpu'' ''bogus'' 0) \<and>
   MultiHeadAttention_forward (report_call values_as_context)
     (projr (MultiHeadAttention_init [[1, 0], [0, 1]] [[1, 0], [0, 1]] [[1, 0], [0, 1]] [[1, 0], [0, 1]]
        2 2 2 1 ''cpu'' ''bogus'' 0))
     [[[1, 2], [3, 4]]] [[[1, 2], [3, 4]]] [[[1, 2], [3, 4]]] None
   = Inr ([[[1, 2], [3, 4]]], AutoCorrelation, None)"
  unfolding bogus_run by (simp add: MultiHeadAttention_init_def)

subsection \<open>The causal mask of the decoder\<close>

lemma DecoderLayer_forward_report:
  assumes "DecoderLayer_forward (report_call impl) l x enc smask emask = Inr (out, sa, ea)"
  shows "snd sa = map_option (repeat_heads (n_heads (dec_self_attn l))) smask \<and>
         snd ea = map_option (repeat_heads (n_heads (dec_enc_attn l))) emask"
  using assms
  by (auto simp add: DecoderLayer_forward_def bind_res_Inr_iff
      split: prod.splits dest: MultiHeadAttention_forward_report)

lemma Decoder_loop_report:
  assumes "Decoder_loop (report_call impl) ls x enc smask sas eas = Inr (out, sa, ea)"
  shows "map snd sa = map snd sas @ map (\<lambda>l. map_option (repeat_heads (n_heads (dec_self_attn l))) smask) ls \<and>
         map snd ea = map snd eas @ map (\<lambda>l. None) ls"
  using assms
proof (induction ls arbitrary: x sas eas)
  case Nil
  then show ?case by simp
next
  case (Cons l ls)
  from Cons.prems obtain x' s e where
    step: "DecoderLayer_forward (report_call impl) l x enc smask None = Inr (x', s, e)"
    and rest: "Decoder_loop (report_call impl) ls x' enc smask (sas @ [s]) (eas @ [e]) = Inr (out, sa, ea)"
    by (auto split: sum.splits)
  from DecoderLayer_forward_report[OF step]
  have "snd s = map_option (repeat_heads (n_heads (dec_self_attn l))) smask" "snd e = None" by simp_all
  with Cons.IH[OF rest] show ?case by simp
qed

lemma mask_entry:
  assumes "b < size0 seq" "i < size1 seq" "j < size1 seq"
  shows "get_attn_subsequent_mask seq ! b ! i ! j = (if i < j then 1 else 0)"
  using assms
  by (simp add: get_attn_subsequent_mask_def np_triu_def np_ones_def triu_row_def to_int_def size0_def Let_def)

lemma mask_shape:
  "length (get_attn_subsequent_mask seq) = size0 seq \<and>
   (\<forall>a \<in> set (get_attn_subsequent_mask seq). length a = size1 seq \<and> (\<forall>r \<in> set a. length r = size1 seq))"
  by (auto simp add: get_attn_subsequent_mask_def np_triu_def np_ones_def triu_row_def to_int_def size0_def Let_def dest: set_zip_rightD)


lemma example_attention_run:
  "MultiHeadAttention_forward (report_call values_as_context) example_attention
     [[[a, b], [c, d]]] [[[e, f], [g, h]]] [[[e, f], [g, h]]] msk
   = Inr ([[[e, f], [g, h]]], ACAT 2 ''cpu'' 1 2 0, map_option (repeat_heads 1) msk)"
  by (simp add: MultiHeadAttention_forward_def example_attention_def identity_linear_def run_simps)

lemma example_norm_run:
  "\<exists>a' b' c' d'. layer_norm3 example_norm [[[a, b], [c, d]]] = Inr [[[a', b'], [c', d']]]"
  by (simp add: layer_norm3_def layer_norm_vec_def example_norm_def Let_def)

lemma add3_run: "add3 [[[a, b], [c, d]]] [[[e, f], [g, h]]] = Inr [[[a + e, b + f], [c + g, d + h]]]"
  by (simp add: add3_def add2_def add1_def broadcast2_def)

lemma example_ffn_run:
  "\<exists>a' b' c' d'. PoswiseFeedForwardNet_forward example_ffn [[[a, b], [c, d]]] = Inr [[[a', b'], [c', d']]]"
  by (simp add: PoswiseFeedForwardNet_forward_def example_ffn_def linear3_def linear_vec_def
      dot_def bind_res_def)

lemma example_decoder_layer_run:
  "\<exists>a' b' c' d' s e.
     DecoderLayer_forward (report_call values_as_context) example_decoder_layer
       [[[a, b], [c, d]]] [[[e1, f1], [g1, h1]]] msk None
     = Inr ([[[a', b'], [c', d']]], s, e)"
proof -
  obtain a1 b1 c1 d1 where 1:
    "layer_norm3 example_norm [[[2 * a, 2 * b], [2 * c, 2 * d]]] = Inr [[[a1, b1], [c1, d1]]]"
    using example_norm_run by blast
  obtain a2 b2 c2 d2 where 2:
    "layer_norm3 example_norm [[[a1 + e1, b1 + f1], [c1 + g1, d1 + h1]]] = Inr [[[a2, b2], [c2, d2]]]"
    using example_norm_run by blast
  obtain a3 b3 c3 d3 where 3:
    "PoswiseFeedForwardNet_forward example_ffn [[[a2, b2], [c2, d2]]] = Inr [[[a3, b3], [c3, d3]]]"
    using example_ffn_run by blast
  obtain a4 b4 c4 d4 where 4:
    "layer_norm3 example_norm [[[a2 + a3, b2 + b3], [c2 + c3, d2 + d3]]] = Inr [[[a4, b4], [c4, d4]]]"
    using example_norm_run by blast
  show ?thesis
    by (simp add: DecoderLayer_forward_def example_decoder_layer_def example_attention_run
        add3_run 1 2 3 4 bind_res_def)
qed

lemma example_table: "PositionalEncoding_init 2 1000 = Inr (projr (PositionalEncoding_init 2 1000))"
  by (simp add: PositionalEncoding_init_table)

lemma example_pos_run:
  "\<exists>a' b' c' d'. PositionalEncoding_forward (projr (PositionalEncoding_init 2 1000))
      (with_shape [[[a, b], [c, d]]]) = Inr \<lparr>shape3 = (1, 2, 2), data3 = [[[a', b'], [c', d']]]\<rparr>"
proof -
  have "PositionalEncoding_forward (projr (PositionalEncoding_init 2 1000))
      (with_shape [[[a, b], [c, d]]]) =
        Inr \<lparr>shape3 = (1, 2, 2),
              data3 = map (\<lambda>x. map (\<lambda>(v, r). map (\<lambda>(a, b). a + b) (zip v r)) (zip x (pe_table 2 2)))
                        (data3 (with_shape [[[a, b], [c, d]]]))\<rparr>"
    by (rule PositionalEncoding_forward_fits[OF example_table])
       (simp_all add: with_shape_def size0_def size1_def size2_def well_shaped_def)
  then show ?thesis
    by (simp add: with_shape_def pe_table_def upt_conv_Cons)
qed

lemma example_decoder_run:
  "\<not> isl (Decoder_forward (report_call values_as_context) example_decoder
            [[[1, 2], [3, 4]]] [[[5, 6], [7, 8]]])"
proof -
  obtain a b c d where p: "PositionalEncoding_forward (projr (PositionalEncoding_init 2 1000))
      (with_shape [[[1, 2], [3, 4]]]) = Inr \<lparr>shape3 = (1, 2, 2), data3 = [[[a, b], [c, d]]]\<rparr>"
    using example_pos_run by blast
  obtain a' b' c' d' s e where l:
    "DecoderLayer_forward (report_call values_as_context) example_decoder_layer
       [[[a, b], [c, d]]] [[[5, 6], [7, 8]]] (Some (get_attn_subsequent_mask [[[1, 2], [3, 4::real]]])) None
     = Inr ([[[a', b'], [c', d']]], s, e)"
    using example_decoder_layer_run
            [of a b c d 5 6 7 8 "Some (get_attn_subsequent_mask [[[1, 2], [3, 4::real]]])"]
    by (elim exE) (erule that)
  show ?thesis
    by (simp add: Decoder_forward_def example_decoder_def p l bind_res_def)
qed


text \<open>
  C3. The mask that \<^verbatim>\<open>Decoder.forward\<close> computes from the decoder input has one
  \<open>T \<times> T\<close> matrix per batch entry, \<open>T\<close> the time length of the input, with entry
  \<open>(i, j)\<close> equal to 1 when \<open>j > i\<close> and to 0 otherwise. Whenever the call returns,
  the self-attention of every layer was called with this one mask, repeated over
  the heads, and the cross-attention of every layer with no mask.
\<close>

theorem Decoder_causal_mask:
  assumes "Decoder_forward (report_call impl) dec dec_inputs enc_outputs = Inr (out, sa, ea)"
  shows "length (get_attn_subsequent_mask dec_inputs) = size0 dec_inputs \<and>
         (\<forall>b<size0 dec_inputs.
            length (get_attn_subsequent_mask dec_inputs ! b) = size1 dec_inputs \<and>
            (\<forall>i<size1 dec_inputs.
               length (get_attn_subsequent_mask dec_inputs ! b ! i) = size1 dec_inputs \<and>
               (\<forall>j<size1 dec_inputs.
                  get_attn_subsequent_mask dec_inputs ! b ! i ! j = (if i < j then 1 else 0)))) \<and>
         map snd sa = map (\<lambda>l. Some (repeat_heads (n_heads (dec_self_attn l))
                                       (get_attn_subsequent_mask dec_inputs))) (dec_layers dec) \<and>
         map snd ea = map (\<lambda>l. None) (dec_layers dec)"
proof -
  let ?M = "get_attn_subsequent_mask dec_inputs"
  have shape: "length ?M = size0 dec_inputs"
    and rows: "\<And>a. a \<in> set ?M \<Longrightarrow> length a = size1 dec_inputs \<and> (\<forall>r \<in> set a. length r = size1 dec_inputs)"
    using mask_shape[of dec_inputs] by blast+
  have entries: "\<forall>b<size0 dec_inputs.
            length (?M ! b) = size1 dec_inputs \<and>
            (\<forall>i<size1 dec_inputs.
               length (?M ! b ! i) = size1 dec_inputs \<and>
               (\<forall>j<size1 dec_inputs. ?M ! b ! i ! j = (if i < j then 1 else 0)))"
  proof (intro allI impI conjI)
    fix b assume b: "b < size0 dec_inputs"
    then have mb: "?M ! b \<in> set ?M" using shape by simp
    from rows[OF mb] show lb: "length (?M ! b) = size1 dec_inputs" by simp
    fix i assume i: "i < size1 dec_inputs"
    with lb have "?M ! b ! i \<in> set (?M ! b)" by simp
    with rows[OF mb] show "length (?M ! b ! i) = size1 dec_inputs" by simp
    fix j assume j: "j < size1 dec_inputs"
    from mask_entry[OF b i j] show "?M ! b ! i ! j = (if i < j then 1 else 0)" .
  qed
  from assms obtain x where
    "Decoder_loop (report_call impl) (dec_layers dec) x enc_outputs (Some ?M) [] [] = Inr (out, sa, ea)"
    by (auto simp: Decoder_forward_def bind_res_Inr_iff Let_def)
  from Decoder_loop_report[OF this]
  have "map snd sa = map (\<lambda>l. Some (repeat_heads (n_heads (dec_self_attn l)) ?M)) (dec_layers dec)"
    and "map snd ea = map (\<lambda>l. None) (dec_layers dec)"
    by simp_all
  with shape entries show ?thesis by blast
qed

theorem Decoder_causal_mask_witness:
  "\<not> isl (Decoder_forward (report_call values_as_context) example_decoder
            [[[1, 2], [3, 4]]] [[[5, 6], [7, 8]]]) \<and>
   get_attn_subsequent_mask [[[1, 2], [3, 4::real]]] = [[[0, 1], [0, 0]]] \<and>
   map snd (fst (snd (projr (Decoder_forward (report_call values_as_context) example_decoder
            [[[1, 2], [3, 4]]] [[[5, 6], [7, 8]]])))) = [Some [[[[0, 1], [0, 0]]]]] \<and>
   map snd (snd (snd (projr (Decoder_forward (report_call values_as_context) example_decoder
            [[[1, 2], [3, 4]]] [[[5, 6], [7, 8]]])))) = [None]"
proof -
  let ?r = "Decoder_forward (report_call values_as_context) example_decoder
            [[[1, 2], [3, 4]]] [[[5, 6], [7, 8]]]"
  have ok: "\<not> isl ?r" by (rule example_decoder_run)
  then obtain out sa ea where r: "?r = Inr (out, sa, ea)"
    by (cases ?r) auto
  have m: "get_attn_subsequent_mask [[[1, 2], [3, 4::real]]] = [[[0, 1], [0, 0]]]"
    by (simp add: get_attn_subsequent_mask_def np_triu_def np_ones_def triu_row_def to_int_def
        size0_def size1_def Let_def upt_conv_Cons eval_nat_numeral)
  from Decoder_causal_mask [OF r]
  have "map snd sa = [Some (repeat_heads 1 (get_attn_subsequent_mask [[[1, 2], [3, 4::real]]]))]"
    and "map snd ea = [None]"
    by (simp_all add: example_decoder_def example_decoder_layer_def example_attention_def)
  with ok m r show ?thesis by (simp add: repeat_heads_def)
qed

subsection \<open>The process model on the example\<close>

lemma example_process_model_eq:
  "example_process_model =
     \<lparr>pm_encoder = example_stack,
      musig = \<lparr>in_features = 2, out_features = 4, weight = [[1, 0], [0, 1], [0, 0], [0, 0]],
               bias = Some [0, 0, 0, 0]\<rparr>,
      pm_decoder = example_stack,
      pm_norm = \<lparr>normalized_shape = 2, ln_eps = 1 / 100000, ln_affine = Some ([1, 1], [0, 0])\<rparr>,
      gp_x = constant_gp, gp_t = constant_gp, gp_proj = None, pm_d = 2\<rparr>"
  by (simp add: example_process_model_def process_model_init_def example_conv_init_def
      example_linear_init_def example_stack_def example_conv_def example_batch_norm_def Let_def
      numeral_2_eq_2)

lemma example_gp_process_model_eq:
  "example_gp_process_model =
     example_process_model
       \<lparr>gp_proj := Some (\<lparr>in_features = 1, out_features = 2, weight = [[1], [1]], bias = Some [0, 0]\<rparr>,
                         \<lparr>in_features = 1, out_features = 2, weight = [[1], [1]], bias = Some [0, 0]\<rparr>)\<rparr>"
  by (simp add: example_process_model_def example_gp_process_model_def process_model_init_def
      example_linear_init_def Let_def)

lemma example_conv_run:
  "Conv1d_forward example_conv [[[a], [b]], [[c], [d]]] = Inr [[[a], [b]], [[c], [d]]]"
  by (simp add: Conv1d_forward_def example_conv_def conv_channel_def size1_def Let_def upt_conv_Cons)

lemma example_batch_norm_run:
  "\<exists>a' b' c' d' bn'. BatchNorm1d_forward example_batch_norm [[[a], [b]], [[c], [d]]]
      = Inr ([[[a'], [b']], [[c'], [d']]], bn')"
  by (simp add: BatchNorm1d_forward_def example_batch_norm_def size0_def size1_def size2_def
      Let_def upt_conv_Cons)

lemma softmax_single: "Softmax_forward [[[a], [b]], [[c], [d]]] = [[[1], [1]], [[1], [1]]]"
  by (simp add: Softmax_forward_def softmax_vec_def)

lemma example_stack_run:
  "\<exists>s'. conv_stack_forward example_stack [[[a], [b]], [[c], [d]]] = Inr ([[[1], [1]], [[1], [1]]], s')"
proof -
  obtain a' b' c' d' bn' where
    "BatchNorm1d_forward example_batch_norm [[[a], [b]], [[c], [d]]] = Inr ([[[a'], [b']], [[c'], [d']]], bn')"
    using example_batch_norm_run by blast
  then show ?thesis
    by (simp add: conv_stack_forward_def example_stack_def example_conv_run softmax_single bind_res_def)
qed

lemma example_encode_run:
  "\<exists>enc'. encode example_process_model [[[a, b]], [[c, d]]]
     = Inr ([[[1, 1]], [[1, 1]]], [[[1, 1]], [[1, 1]]], [[[0, 0]], [[0, 0]]], enc')"
proof -
  have t: "transpose12 [[[a, b]], [[c, d]]] = [[[a], [b]], [[c], [d]]]"
    by (simp add: transpose12_def transpose_m_def size1_def upt_conv_Cons)
  have t': "transpose12 [[[1], [1]], [[1], [1::real]]] = [[[1, 1]], [[1, 1]]]"
    by (simp add: transpose12_def transpose_m_def size1_def upt_conv_Cons)
  obtain s' where "conv_stack_forward example_stack [[[a], [b]], [[c], [d]]] = Inr ([[[1], [1]], [[1], [1]]], s')"
    using example_stack_run by blast
  then show ?thesis
    by (simp add: encode_def example_process_model_eq t t' bind_res_def linear3_def linear_vec_def
        dot_def slice_to_def slice_from_def Let_def)
qed

lemma randn_like_run:
  "randn_like g [[[a, b]], [[c, d]]] = ([[[g 0, g 1]], [[g 2, g 3]]], (\<lambda>i. g (i + 4)))"
  by (simp add: randn_like_def upt_conv_Cons eval_nat_numeral)

lemma example_inject_run:
  assumes "st 0 = [[[a, b]], [[c, d]]]"
  shows "inject_noise example_process_model st 0 [[[e, f]], [[p, q]]] =
         Inr (0, st(0 := [[[a + e * (1 / 10), b + f * (1 / 10)]], [[c + p * (1 / 10), d + q * (1 / 10)]]]))"
  by (simp add: inject_noise_def example_process_model_eq add_inplace_def add3_into_def
      broadcast_into_def scale3_def assms bind_res_def)

lemma example_decode_run:
  "\<exists>z dec'. decode example_process_model g [[[1, 1]], [[1, 1]]] [[[0, 0]], [[0, 0]]]
     = Inr (z, [[[1, 1]], [[1, 1]]], dec', (\<lambda>i. g (i + 4)))"
proof -
  have t: "transpose12 [[[a, b]], [[c, d]]] = [[[a], [b]], [[c], [d]]]" for a b c d :: real
    by (simp add: transpose12_def transpose_m_def size1_def upt_conv_Cons)
  have t': "transpose12 [[[1], [1]], [[1], [1::real]]] = [[[1, 1]], [[1, 1]]]"
    by (simp add: transpose12_def transpose_m_def size1_def upt_conv_Cons)
  have r: "reparameterize [[[1, 1]], [[1, 1]]] [[[0, 0]], [[0, 0]]] [[[g 0, g (Suc 0)]], [[g 2, g 3]]] =
           Inr [[[1 + g 0, 1 + g (Suc 0)]], [[1 + g 2, 1 + g 3]]]"
    by (simp add: reparameterize_def binop3_def binop2_def binop1_def broadcast2_def scale3_def
        add3_def add2_def add1_def bind_res_def)
  obtain s' where s: "conv_stack_forward example_stack [[[1 + g 0], [1 + g (Suc 0)]], [[1 + g 2], [1 + g 3]]]
      = Inr ([[[1], [1]], [[1], [1]]], s')"
    using example_stack_run by blast
  show ?thesis
    by (simp add: decode_def randn_like_run r t t' s example_process_model_eq bind_res_def)
qed

lemma example_norm_value:
  "layer_norm3 (pm_norm example_process_model) [[[1 + u, 1 - u]], [[1 + v, 1 - v]]] =
   Inr [[[u / sqrt (u\<^sup>2 + 1 / 100000), - u / sqrt (u\<^sup>2 + 1 / 100000)]],
        [[v / sqrt (v\<^sup>2 + 1 / 100000), - v / sqrt (v\<^sup>2 + 1 / 100000)]]]"
  by (simp add: layer_norm3_def layer_norm_vec_def example_process_model_eq mean_list_def Let_def
      power2_eq_square)

lemma example_forward_run:
  "\<exists>pm' g'. process_model_forward example_process_model (\<lambda>r. [[[0, 0]], [[0, 0]]]) example_noise 0 None =
     Inr (([[[(1 / 10) / sqrt ((1 / 10)\<^sup>2 + 1 / 100000), - (1 / 10) / sqrt ((1 / 10)\<^sup>2 + 1 / 100000)]],
            [[(1 / 10) / sqrt ((1 / 10)\<^sup>2 + 1 / 100000), - (1 / 10) / sqrt ((1 / 10)\<^sup>2 + 1 / 100000)]]],
           KlInt 0), pm',
          (\<lambda>r. [[[0, 0]], [[0, 0]]])(0 := [[[1 / 10, - (1 / 10)]], [[1 / 10, - (1 / 10)]]]), g')"
proof -
  let ?st = "\<lambda>r::nat. [[[0, 0]], [[0, 0::real]]]"
  let ?st1 = "?st(0 := [[[1 / 10, - (1 / 10)]], [[1 / 10, - (1 / 10)]]])"
  have i: "inject_noise example_process_model ?st 0 [[[1, - 1]], [[1, - 1]]] = Inr (0, ?st1)"
    using example_inject_run[of ?st 0 0 0 0 1 "- 1" 1 "- 1"] by simp
  obtain enc' where e: "encode example_process_model [[[1 / 10, - (1 / 10)]], [[1 / 10, - (1 / 10)]]]
     = Inr ([[[1, 1]], [[1, 1]]], [[[1, 1]], [[1, 1]]], [[[0, 0]], [[0, 0]]], enc')"
    using example_encode_run by blast
  obtain z dec' where d: "decode example_process_model (\<lambda>i. example_noise (i + 4)) [[[1, 1]], [[1, 1]]] [[[0, 0]], [[0, 0]]]
     = Inr (z, [[[1, 1]], [[1, 1]]], dec', (\<lambda>i. example_noise (i + 4 + 4)))"
    using example_decode_run[of "\<lambda>i. example_noise (i + 4)"] by auto
  have a: "add3 [[[1, 1]], [[1, 1]]] [[[1 / 10, - (1 / 10)]], [[1 / 10, - (1 / 10)]]] =
           Inr [[[1 + 1 / 10, 1 - 1 / 10]], [[1 + 1 / 10, 1 - 1 / 10::real]]]"
    by (simp add: add3_def add2_def add1_def broadcast2_def)
  note n = example_norm_value[of "1 / 10" "1 / 10"]
  have g: "randn_like example_noise [[[0, 0]], [[0, 0]]] = ([[[1, - 1]], [[1, - 1]]], (\<lambda>i. example_noise (i + 4)))"
    by (simp add: randn_like_run example_noise_def)
  show ?thesis
    unfolding process_model_forward_def g
    by (simp only: prod.case option.case bind_res_def sum.case i e d a n kl_of_def fun_upd_same) blast
qed

lemma add_inplace_Inr:
  "add_inplace st x t = Inr (r, st1) \<Longrightarrow> r = x \<and> add3_into (st x) t = Inr (st1 x)"
  by (auto simp: add_inplace_def bind_res_Inr_iff)

lemma inject_noise_Inr:
  assumes "inject_noise pm st x eps = Inr (r, st1)"
  shows "r = x"
    and "gp_proj pm = None \<Longrightarrow> add3_into (st x) (scale3 0.1 eps) = Inr (st1 x)"
  using assms
  by (auto simp: inject_noise_def bind_res_Inr_iff split: option.splits prod.splits
      dest: add_inplace_Inr)


lemma example_gp_inject_run:
  assumes "st 0 = [[[a, b]], [[c, d]]]"
  shows "inject_noise example_gp_process_model st 0 [[[e, f]], [[p, q]]] =
         Inr (0, st(0 := [[[a + e * (1 / 10), b + f * (1 / 10)]], [[c + p * (1 / 10), d + q * (1 / 10)]]]))"
  by (simp add: inject_noise_def example_gp_process_model_eq example_process_model_eq
      constant_gp_def unsqueeze_last_def linear3_def linear_vec_def dot_def binop3_def binop2_def
      binop1_def broadcast2_def add3_def add2_def add1_def add_inplace_def add3_into_def
      broadcast_into_def scale3_def assms bind_res_def)

lemma example_gp_encode: "encode example_gp_process_model = encode example_process_model"
  by (rule ext) (simp add: encode_def example_gp_process_model_eq)

lemma example_gp_decode: "decode example_gp_process_model = decode example_process_model"
  by (intro ext) (simp add: decode_def example_gp_process_model_eq)

lemma example_gp_norm: "pm_norm example_gp_process_model = pm_norm example_process_model"
  by (simp add: example_gp_process_model_eq)

lemma example_forward_steps:
  assumes i: "inject_noise pm example_store 0 [[[1, - 1]], [[1, - 1]]] =
                Inr (0, example_store(0 := [[[1 / 10, - (1 / 10)]], [[1 / 10, - (1 / 10)]]]))"
    and e: "encode pm = encode example_process_model"
    and d: "decode pm = decode example_process_model"
    and n: "pm_norm pm = pm_norm example_process_model"
  shows "\<exists>pm' g'. process_model_forward pm example_store example_noise 0 None =
     Inr (([[[(1 / 10) / sqrt ((1 / 10)\<^sup>2 + 1 / 100000), - (1 / 10) / sqrt ((1 / 10)\<^sup>2 + 1 / 100000)]],
            [[(1 / 10) / sqrt ((1 / 10)\<^sup>2 + 1 / 100000), - (1 / 10) / sqrt ((1 / 10)\<^sup>2 + 1 / 100000)]]],
           KlInt 0), pm',
          example_store(0 := [[[1 / 10, - (1 / 10)]], [[1 / 10, - (1 / 10)]]]), g')"
proof -
  obtain enc' where e': "encode pm [[[1 / 10, - (1 / 10)]], [[1 / 10, - (1 / 10)]]]
     = Inr ([[[1, 1]], [[1, 1]]], [[[1, 1]], [[1, 1]]], [[[0, 0]], [[0, 0]]], enc')"
    unfolding e using example_encode_run by blast
  obtain z dec' where d': "decode pm (\<lambda>i. example_noise (i + 4)) [[[1, 1]], [[1, 1]]] [[[0, 0]], [[0, 0]]]
     = Inr (z, [[[1, 1]], [[1, 1]]], dec', (\<lambda>i. example_noise (i + 4 + 4)))"
    unfolding d using example_decode_run[of "\<lambda>i. example_noise (i + 4)"] by auto
  have a: "add3 [[[1, 1]], [[1, 1]]] [[[1 / 10, - (1 / 10)]], [[1 / 10, - (1 / 10)]]] =
           Inr [[[1 + 1 / 10, 1 - 1 / 10]], [[1 + 1 / 10, 1 - 1 / 10::real]]]"
    by (simp add: add3_def add2_def add1_def broadcast2_def)
  note n' = example_norm_value[of "1 / 10" "1 / 10"]
  have g: "randn_like example_noise (example_store 0) = ([[[1, - 1]], [[1, - 1]]], (\<lambda>i. example_noise (i + 4)))"
    by (simp add: randn_like_run example_noise_def example_store_def)
  show ?thesis
    unfolding process_model_forward_def g
    by (simp only: prod.case option.case bind_res_def sum.case i e' d' a n n' kl_of_def fun_upd_same) blast
qed

lemma example_forward_run':
  "\<exists>pm' g'. process_model_forward example_process_model example_store example_noise 0 None =
     Inr (([[[(1 / 10) / sqrt ((1 / 10)\<^sup>2 + 1 / 100000), - (1 / 10) / sqrt ((1 / 10)\<^sup>2 + 1 / 100000)]],
            [[(1 / 10) / sqrt ((1 / 10)\<^sup>2 + 1 / 100000), - (1 / 10) / sqrt ((1 / 10)\<^sup>2 + 1 / 100000)]]],
           KlInt 0), pm',
          example_store(0 := [[[1 / 10, - (1 / 10)]], [[1 / 10, - (1 / 10)]]]), g')"
  by (rule example_forward_steps)
     (use example_inject_run[of example_store 0 0 0 0 1 "- 1" 1 "- 1"] in \<open>simp_all add: example_store_def\<close>)

lemma example_gp_forward_run:
  "\<exists>pm' g'. process_model_forward example_gp_process_model example_store example_noise 0 None =
     Inr (([[[(1 / 10) / sqrt ((1 / 10)\<^sup>2 + 1 / 100000), - (1 / 10) / sqrt ((1 / 10)\<^sup>2 + 1 / 100000)]],
            [[(1 / 10) / sqrt ((1 / 10)\<^sup>2 + 1 / 100000), - (1 / 10) / sqrt ((1 / 10)\<^sup>2 + 1 / 100000)]]],
           KlInt 0), pm',
          example_store(0 := [[[1 / 10, - (1 / 10)]], [[1 / 10, - (1 / 10)]]]), g')"
  by (rule example_forward_steps)
     (use example_gp_inject_run[of example_store 0 0 0 0 1 "- 1" 1 "- 1"] in
       \<open>simp_all add: example_store_def example_gp_encode example_gp_decode example_gp_norm\<close>)

lemma example_spec_run:
  "process_model_output_spec example_process_model example_store example_noise 0 =
     Inr [[[0, 0]], [[0, 0]]]"
proof -
  have i: "inject_noise example_process_model example_store 0 [[[1, - 1]], [[1, - 1]]] =
                Inr (0, example_store(0 := [[[1 / 10, - (1 / 10)]], [[1 / 10, - (1 / 10)]]]))"
    using example_inject_run[of example_store 0 0 0 0 1 "- 1" 1 "- 1"]
    by (simp add: example_store_def)
  obtain enc' where e': "encode example_process_model [[[1 / 10, - (1 / 10)]], [[1 / 10, - (1 / 10)]]]
     = Inr ([[[1, 1]], [[1, 1]]], [[[1, 1]], [[1, 1]]], [[[0, 0]], [[0, 0]]], enc')"
    using example_encode_run by blast
  obtain z dec' where d': "decode example_process_model (\<lambda>i. example_noise (i + 4)) [[[1, 1]], [[1, 1]]] [[[0, 0]], [[0, 0]]]
     = Inr (z, [[[1, 1]], [[1, 1]]], dec', (\<lambda>i. example_noise (i + 4 + 4)))"
    using example_decode_run[of "\<lambda>i. example_noise (i + 4)"] by auto
  have a: "add3 [[[1, 1]], [[1, 1]]] (example_store 0) = Inr [[[1 + 0, 1 - 0]], [[1 + 0, 1 - 0::real]]]"
    by (simp add: add3_def add2_def add1_def broadcast2_def example_store_def)
  have n': "layer_norm3 (pm_norm example_process_model) [[[1 + 0, 1 - 0]], [[1 + 0, 1 - 0]]] =
            Inr [[[0, 0]], [[0, 0]]]"
    unfolding example_norm_value by simp
  have g: "randn_like example_noise (example_store 0) = ([[[1, - 1]], [[1, - 1]]], (\<lambda>i. example_noise (i + 4)))"
    by (simp add: randn_like_run example_noise_def example_store_def)
  show ?thesis
    unfolding process_model_output_spec_def g
    by (simp only: prod.case bind_res_def sum.case i e' d' a n' fun_upd_same)
qed


subsection \<open>The loss without a target\<close>

text \<open>
  C7. Whenever \<^verbatim>\<open>process_model.forward\<close> is called without a target and returns,
  the loss it returns is the integer 0, whether the Gaussian-process projections
  are present or not.
\<close>

theorem process_model_forward_no_target:
  assumes "process_model_forward pm st g x None = Inr ((output, kl_loss), pm', st', g')"
  shows "kl_loss = KlInt 0"
  using assms
  by (auto simp: process_model_forward_def bind_res_Inr_iff kl_of_def split: prod.splits)

theorem process_model_forward_no_target_witness:
  "\<not> isl (process_model_forward example_process_model example_store example_noise 0 None) \<and>
   snd (fst (projr (process_model_forward example_process_model example_store example_noise 0 None)))
     = KlInt 0 \<and>
   \<not> isl (process_model_forward example_gp_process_model example_store example_noise 0 None) \<and>
   snd (fst (projr (process_model_forward example_gp_process_model example_store example_noise 0 None)))
     = KlInt 0"
proof -
  obtain out kl pm' st' g' where
    r: "process_model_forward example_process_model example_store example_noise 0 None
          = Inr ((out, kl), pm', st', g')"
    using example_forward_run' by blast
  obtain out2 kl2 pm2 st2 g2 where
    r2: "process_model_forward example_gp_process_model example_store example_noise 0 None
          = Inr ((out2, kl2), pm2, st2, g2)"
    using example_gp_forward_run by blast
  from process_model_forward_no_target [OF r] process_model_forward_no_target [OF r2] r r2
  show ?thesis by simp
qed

subsection \<open>The residual of the process model\<close>

text \<open>
  C1, as amended. Whenever \<^verbatim>\<open>process_model.forward\<close> returns, the noise
  injection has written its sum at the reference of the input and returned that
  same reference, the encoder has read the tensor there, and the output is the
  layer norm of \<^verbatim>\<open>y\<close> plus the tensor there: the input with the noise. With no
  Gaussian-process projections that tensor is the input plus a tenth of the
  first draw.
\<close>

theorem process_model_residual_noised:
  assumes "process_model_forward pm st g x target = Inr ((output, kl_loss), pm', st', g')"
  shows "\<exists>h mu sigma enc' z y dec' g2.
           inject_noise pm st x (fst (randn_like g (st x))) = Inr (x, st') \<and>
           encode pm (st' x) = Inr (h, mu, sigma, enc') \<and>
           decode pm (snd (randn_like g (st x))) mu sigma = Inr (z, y, dec', g2) \<and>
           bind_res (add3 y (st' x)) (layer_norm3 (pm_norm pm)) = Inr output \<and>
           (gp_proj pm = None \<longrightarrow>
              add3_into (st x) (scale3 0.1 (fst (randn_like g (st x)))) = Inr (st' x))"
proof -
  obtain eps g1 where rl: "randn_like g (st x) = (eps, g1)" by (cases "randn_like g (st x)")
  from assms obtain r h mu sigma enc' z y dec' g2 s where
    i: "inject_noise pm st x eps = Inr (r, st')"
    and e: "encode pm (st' r) = Inr (h, mu, sigma, enc')"
    and d: "decode pm g1 mu sigma = Inr (z, y, dec', g2)"
    and a: "add3 y (st' x) = Inr s"
    and n: "layer_norm3 (pm_norm pm) s = Inr output"
    by (auto simp: process_model_forward_def rl bind_res_Inr_iff split: prod.splits)
  from inject_noise_Inr[OF i] have r: "r = x"
    and w: "gp_proj pm = None \<Longrightarrow> add3_into (st x) (scale3 0.1 eps) = Inr (st' x)"
    by simp_all
  from a n have "bind_res (add3 y (st' x)) (layer_norm3 (pm_norm pm)) = Inr output"
    by (simp add: bind_res_def)
  with i e d w r rl show ?thesis by auto
qed

theorem process_model_residual_noised_witness:
  "\<not> isl (process_model_forward example_process_model example_store example_noise 0 None) \<and>
   fst (snd (snd (projr (process_model_forward example_process_model example_store example_noise 0 None)))) 0
     = [[[1 / 10, - (1 / 10)]], [[1 / 10, - (1 / 10)]]] \<and>
   (\<exists>y. bind_res (add3 y [[[1 / 10, - (1 / 10)]], [[1 / 10, - (1 / 10)]]])
              (layer_norm3 (pm_norm example_process_model))
         = Inr (fst (fst (projr (process_model_forward example_process_model example_store
                                   example_noise 0 None))))) \<and>
   add3_into (example_store 0) (scale3 0.1 (fst (randn_like example_noise (example_store 0))))
     = Inr [[[1 / 10, - (1 / 10)]], [[1 / 10, - (1 / 10)]]]"
proof -
  obtain out kl pm' g' where
    r: "process_model_forward example_process_model example_store example_noise 0 None
          = Inr ((out, kl), pm', example_store(0 := [[[1 / 10, - (1 / 10)]], [[1 / 10, - (1 / 10)]]]), g')"
    using example_forward_run' by blast
  have gp: "gp_proj example_process_model = None" by (simp add: example_process_model_eq)
  from process_model_residual_noised [OF r] gp r
  show ?thesis by auto
qed

text \<open>
  C1 as stated fails: on the example the output that adds the original input is
  zero everywhere, and the output of \<^verbatim>\<open>forward\<close> is not.
\<close>

theorem process_model_residual_counterexample:
  "process_model_output_spec example_process_model example_store example_noise 0
     = Inr [[[0, 0]], [[0, 0]]] \<and>
   \<not> isl (process_model_forward example_process_model example_store example_noise 0 None) \<and>
   fst (fst (projr (process_model_forward example_process_model example_store example_noise 0 None)))
     \<noteq> [[[0, 0]], [[0, 0]]]"
proof -
  obtain pm' g' where
    r: "process_model_forward example_process_model example_store example_noise 0 None =
     Inr (([[[(1 / 10) / sqrt ((1 / 10)\<^sup>2 + 1 / 100000), - (1 / 10) / sqrt ((1 / 10)\<^sup>2 + 1 / 100000)]],
            [[(1 / 10) / sqrt ((1 / 10)\<^sup>2 + 1 / 100000), - (1 / 10) / sqrt ((1 / 10)\<^sup>2 + 1 / 100000)]]],
           KlInt 0), pm',
          example_store(0 := [[[1 / 10, - (1 / 10)]], [[1 / 10, - (1 / 10)]]]), g')"
    using example_forward_run' by blast
  have "sqrt ((1 / 10)\<^sup>2 + 1 / 100000) \<noteq> (0::real)"
    by (simp add: power2_eq_square)
  with r example_spec_run show ?thesis by simp
qed

subsection \<open>The encoder of the process model\<close>

lemma sum_list_divide: "sum_list (map (\<lambda>x. f x / c) xs) = sum_list (map f xs) / (c::real)"
  by (induction xs) (simp_all add: add_divide_distrib)

lemma sum_list_exp_pos: "v \<noteq> [] \<Longrightarrow> 0 < sum_list (map exp (v::real list))"
proof (induction v)
  case Nil
  then show ?case by simp
next
  case (Cons a v)
  show ?case
  proof (cases "v = []")
    case True
    then show ?thesis by simp
  next
    case False
    with Cons.IH have "0 < sum_list (map exp v)" by simp
    moreover have "0 < exp a" by simp
    ultimately show ?thesis by (simp add: add_pos_pos)
  qed
qed

lemma softmax_vec_sum: "v \<noteq> [] \<Longrightarrow> sum_list (softmax_vec v) = 1"
  using sum_list_exp_pos[of v] by (simp add: softmax_vec_def sum_list_divide)

lemma length_softmax_vec [simp]: "length (softmax_vec v) = length v"
  by (simp add: softmax_vec_def)

lemma mapM_Inr_length: "mapM f xs = Inr ys \<Longrightarrow> length ys = length xs"
proof (induction xs arbitrary: ys)
  case Nil
  then show ?case by simp
next
  case (Cons x xs)
  then show ?case by (auto split: sum.splits)
qed

lemma mapM_Inr_nth:
  "mapM f xs = Inr ys \<Longrightarrow> i < length xs \<Longrightarrow> f (xs ! i) = Inr (ys ! i)"
proof (induction xs arbitrary: ys i)
  case Nil
  then show ?case by simp
next
  case (Cons x xs)
  then show ?case by (cases i) (auto split: sum.splits)
qed

lemma broadcast2_same:
  assumes "length xs = length ys" "broadcast2 f xs ys = Inr zs"
  shows "length zs = length xs \<and> (\<forall>i<length xs. f (xs ! i) (ys ! i) = Inr (zs ! i))"
proof -
  from assms have m: "mapM (\<lambda>(x, y). f x y) (zip xs ys) = Inr zs"
    by (simp add: broadcast2_def)
  from mapM_Inr_length[OF m] assms(1) have l: "length zs = length xs" by simp
  moreover have "f (xs ! i) (ys ! i) = Inr (zs ! i)" if "i < length xs" for i
    using mapM_Inr_nth[OF m, of i] that assms(1) by simp
  ultimately show ?thesis by blast
qed

lemma binop1_same:
  "length u = length v \<Longrightarrow> binop1 f u v = Inr (map (\<lambda>(x, y). f x y) (zip u v))"
  by (simp add: binop1_def broadcast2_def mapM_Inr case_prod_unfold)

lemma binop2_same:
  assumes "list_all2 (\<lambda>u v. length u = length v) a b"
  shows "binop2 f a b = Inr (map (\<lambda>(u, v). map (\<lambda>(x, y). f x y) (zip u v)) (zip a b))"
proof -
  from assms have l: "length a = length b" by (rule list_all2_lengthD)
  have "mapM (\<lambda>(u, v). binop1 f u v) (zip a b) =
        Inr (map (\<lambda>(u, v). map (\<lambda>(x, y). f x y) (zip u v)) (zip a b))"
  proof (rule mapM_Inr)
    fix p assume p: "p \<in> set (zip a b)"
    obtain u v where uv: "p = (u, v)" by (cases p)
    with p assms have "length u = length v" by (auto simp: list_all2_iff)
    then show "(case p of (u, v) \<Rightarrow> binop1 f u v) =
               Inr (case p of (u, v) \<Rightarrow> map (\<lambda>(x, y). f x y) (zip u v))"
      by (simp add: uv binop1_same)
  qed
  with l show ?thesis by (simp add: binop2_def broadcast2_def)
qed

lemma binop3_same:
  assumes "list_all2 (list_all2 (\<lambda>u v. length u = length v)) A B"
  shows "binop3 f A B =
         Inr (map (\<lambda>(a, b). map (\<lambda>(u, v). map (\<lambda>(x, y). f x y) (zip u v)) (zip a b)) (zip A B))"
proof -
  from assms have l: "length A = length B" by (rule list_all2_lengthD)
  have "mapM (\<lambda>(a, b). binop2 f a b) (zip A B) =
        Inr (map (\<lambda>(a, b). map (\<lambda>(u, v). map (\<lambda>(x, y). f x y) (zip u v)) (zip a b)) (zip A B))"
  proof (rule mapM_Inr)
    fix p assume p: "p \<in> set (zip A B)"
    obtain a b where ab: "p = (a, b)" by (cases p)
    with p assms have "list_all2 (\<lambda>u v. length u = length v) a b" by (auto simp: list_all2_iff)
    then show "(case p of (a, b) \<Rightarrow> binop2 f a b) =
               Inr (case p of (a, b) \<Rightarrow> map (\<lambda>(u, v). map (\<lambda>(x, y). f x y) (zip u v)) (zip a b))"
      by (simp add: ab binop2_same)
  qed
  with l show ?thesis by (simp add: binop3_def broadcast2_def)
qed

lemma add3_binop3: "add3 = binop3 (\<lambda>a b. a + b)"
  by (simp add: add3_def add2_def add1_def binop3_def binop2_def binop1_def)

lemma zipped3_nth:
  assumes "list_all2 (list_all2 (\<lambda>u v. length u = length (v::'b list))) A B"
    and "n < length A" "t < length (A ! n)" "j < length (A ! n ! t)"
  shows "map (\<lambda>(a, b). map (\<lambda>(u, v). map (\<lambda>(x, y). f x y) (zip u v)) (zip a b)) (zip A B) ! n ! t ! j
         = f (A ! n ! t ! j) (B ! n ! t ! j)"
    and "length (map (\<lambda>(a, b). map (\<lambda>(u, v). map (\<lambda>(x, y). f x y) (zip u v)) (zip a b)) (zip A B) ! n) = length (A ! n)"
    and "length (map (\<lambda>(a, b). map (\<lambda>(u, v). map (\<lambda>(x, y). f x y) (zip u v)) (zip a b)) (zip A B) ! n ! t) = length (A ! n ! t)"
proof -
  from assms(1) have lA: "length A = length B" by (rule list_all2_lengthD)
  from assms(1,2) have 2: "list_all2 (\<lambda>u v. length u = length v) (A ! n) (B ! n)"
    by (rule list_all2_nthD)
  then have lAn: "length (A ! n) = length (B ! n)" by (rule list_all2_lengthD)
  from 2 assms(3) have lAnt: "length (A ! n ! t) = length (B ! n ! t)"
    by (rule list_all2_nthD)
  from assms(2-4) lA lAn lAnt
  show "map (\<lambda>(a, b). map (\<lambda>(u, v). map (\<lambda>(x, y). f x y) (zip u v)) (zip a b)) (zip A B) ! n ! t ! j
         = f (A ! n ! t ! j) (B ! n ! t ! j)"
    by simp
  from assms(2-4) lA lAn lAnt
  show "length (map (\<lambda>(a, b). map (\<lambda>(u, v). map (\<lambda>(x, y). f x y) (zip u v)) (zip a b)) (zip A B) ! n) = length (A ! n)"
    by simp
  from assms(2-4) lA lAn lAnt
  show "length (map (\<lambda>(a, b). map (\<lambda>(u, v). map (\<lambda>(x, y). f x y) (zip u v)) (zip a b)) (zip A B) ! n ! t) = length (A ! n ! t)"
    by simp
qed

lemma same_shape_zipped3:
  assumes "list_all2 (list_all2 (\<lambda>u v. length u = length (v::'b list))) A B"
  shows "list_all2 (list_all2 (\<lambda>u v. length u = length v)) (A::'a list list list)
           (map (\<lambda>(a, b). map (\<lambda>(u, v). map (\<lambda>(x, y). (f x y :: 'c)) (zip u v)) (zip a b)) (zip A B))"
proof -
  from assms have lA: "length A = length B" by (rule list_all2_lengthD)
  show ?thesis
  proof (rule list_all2_all_nthI)
    show "length A = length (map (\<lambda>(a, b). map (\<lambda>(u, v). map (\<lambda>(x, y). f x y) (zip u v)) (zip a b)) (zip A B))"
      using lA by simp
  next
    fix n assume n: "n < length A"
    from assms n have 2: "list_all2 (\<lambda>u v. length u = length v) (A ! n) (B ! n)"
      by (rule list_all2_nthD)
    then have lAn: "length (A ! n) = length (B ! n)" by (rule list_all2_lengthD)
    show "list_all2 (\<lambda>u v. length u = length v) (A ! n)
            (map (\<lambda>(a, b). map (\<lambda>(u, v). map (\<lambda>(x, y). f x y) (zip u v)) (zip a b)) (zip A B) ! n)"
    proof (rule list_all2_all_nthI)
      show "length (A ! n) = length (map (\<lambda>(a, b). map (\<lambda>(u, v). map (\<lambda>(x, y). f x y) (zip u v)) (zip a b)) (zip A B) ! n)"
        using n lA lAn by simp
    next
      fix t assume t: "t < length (A ! n)"
      from 2 t have "length (A ! n ! t) = length (B ! n ! t)" by (rule list_all2_nthD)
      with n t lA lAn
      show "length (A ! n ! t) = length (map (\<lambda>(a, b). map (\<lambda>(u, v). map (\<lambda>(x, y). f x y) (zip u v)) (zip a b)) (zip A B) ! n ! t)"
        by simp
    qed
  qed
qed

lemma reparameterize_entries:
  assumes ms: "list_all2 (list_all2 (\<lambda>u v. length u = length v)) mu sigma"
    and sn: "list_all2 (list_all2 (\<lambda>u v. length u = length v)) sigma noise"
  shows "\<exists>z. reparameterize mu sigma noise = Inr z \<and>
           (\<forall>n<length mu. \<forall>t<length (mu ! n). \<forall>j<length (mu ! n ! t).
              z ! n ! t ! j = mu ! n ! t ! j + exp (sigma ! n ! t ! j * 0.5) * noise ! n ! t ! j)"
proof -
  let ?e = "map (map (map exp)) (scale3 0.5 sigma)"
  let ?en = "map (\<lambda>(a, b). map (\<lambda>(u, v). map (\<lambda>(x, y). x * y) (zip u v)) (zip a b)) (zip ?e noise)"
  let ?z = "map (\<lambda>(a, b). map (\<lambda>(u, v). map (\<lambda>(x, y). x + y) (zip u v)) (zip a b)) (zip mu ?en)"
  have se: "list_all2 (list_all2 (\<lambda>u v. length u = length v)) sigma ?e"
    by (simp add: scale3_def list_all2_map2 list_all2_refl)
  have es: "list_all2 (list_all2 (\<lambda>u v. length u = length v)) ?e sigma"
    by (simp add: scale3_def list_all2_map1 list_all2_refl)
  have en: "list_all2 (list_all2 (\<lambda>u v. length u = length v)) ?e noise"
    using sn by (simp add: scale3_def list_all2_map1)
  have m_en: "list_all2 (list_all2 (\<lambda>u v. length u = length v)) mu ?en"
  proof -
    have "list_all2 (list_all2 (\<lambda>u v. length u = length v)) ?e ?en"
      using en by (rule same_shape_zipped3)
    then have "list_all2 (list_all2 (\<lambda>u v. length u = length v)) sigma ?en"
      by (simp add: scale3_def list_all2_map1)
    with ms show ?thesis
      by (auto simp: list_all2_conv_all_nth)
  qed
  have r: "reparameterize mu sigma noise = Inr ?z"
    by (simp only: reparameterize_def binop3_same[OF en] add3_binop3 binop3_same[OF m_en]
        bind_res_def sum.case)
  have "?z ! n ! t ! j = mu ! n ! t ! j + exp (sigma ! n ! t ! j * 0.5) * noise ! n ! t ! j"
    if n: "n < length mu" and t: "t < length (mu ! n)" and j: "j < length (mu ! n ! t)" for n t j
  proof -
    from ms have l1: "length mu = length sigma" by (rule list_all2_lengthD)
    from ms n have 2: "list_all2 (\<lambda>u v. length u = length v) (mu ! n) (sigma ! n)"
      by (rule list_all2_nthD)
    then have l2: "length (mu ! n) = length (sigma ! n)" by (rule list_all2_lengthD)
    from 2 t have l3: "length (mu ! n ! t) = length (sigma ! n ! t)" by (rule list_all2_nthD)
    have n': "n < length ?e" using n l1 by (simp add: scale3_def)
    have t': "t < length (?e ! n)" using n t l1 l2 by (simp add: scale3_def)
    have j': "j < length (?e ! n ! t)" using n t j l1 l2 l3 by (simp add: scale3_def)
    have "?z ! n ! t ! j = mu ! n ! t ! j + ?en ! n ! t ! j"
      by (rule zipped3_nth(1)[OF m_en n t j])
    also have "?en ! n ! t ! j = ?e ! n ! t ! j * noise ! n ! t ! j"
      by (rule zipped3_nth(1)[OF en n' t' j'])
    also have "?e ! n ! t ! j = exp (sigma ! n ! t ! j * 0.5)"
      using n t j l1 l2 l3 by (simp add: scale3_def)
    finally show ?thesis .
  qed
  with r show ?thesis by blast
qed

lemma randn_mat_shape: "list_all2 (\<lambda>u v. length u = length v) m (randn_mat g k m)"
  by (induction m arbitrary: k) simp_all

lemma randn_tensor3_shape:
  "list_all2 (list_all2 (\<lambda>u v. length u = length v)) x (randn_tensor3 g k x)"
  by (induction x arbitrary: k) (simp_all add: randn_mat_shape)

lemma split_same_shape:
  assumes "0 < d"
  shows "list_all2 (list_all2 (\<lambda>u v. length u = length v))
           (map (map (slice_to d)) ms) (map (map (slice_from (- int d))) (ms::'a list list list))"
proof -
  have "length (slice_to d v) = length (slice_from (- int d) v)" for v :: "'a list"
    using assms by (auto simp: slice_to_def slice_from_def)
  then show ?thesis
    by (simp add: list_all2_map1 list_all2_map2 list_all2_refl)
qed

lemma split_halves:
  assumes "length v = 2 * d"
  shows "slice_to d v @ slice_from (- int d) v = v"
proof (cases "d = 0")
  case True
  with assms show ?thesis by (simp add: slice_to_def slice_from_def)
next
  case False
  with assms have "slice_from (- int d) v = drop d v"
    by (simp add: slice_from_def max_def)
  then show ?thesis by (simp add: slice_to_def)
qed


lemma example_batch_norm_zero:
  "\<exists>bn'. BatchNorm1d_forward example_batch_norm [[[0], [0]], [[0], [0]]]
      = Inr ([[[0], [0]], [[0], [0]]], bn')"
  by (simp add: BatchNorm1d_forward_def example_batch_norm_def size0_def size1_def size2_def
      Let_def upt_conv_Cons channel_values_def mean_list_def)

lemma example_stack_zero:
  "fst (projr (conv_stack_forward example_stack [[[0], [0]], [[0], [0]]])) = [[[1], [1]], [[1], [1]]]"
proof -
  obtain s' where "conv_stack_forward example_stack [[[0], [0]], [[0], [0]]] = Inr ([[[1], [1]], [[1], [1]]], s')"
    using example_stack_run by blast
  then show ?thesis by simp
qed

lemma example_stack_spec_zero:
  "fst (projr (conv_stack_forward_spec example_stack [[[0], [0]], [[0], [0]]]))
     = [[[1 / 2], [1 / 2]], [[1 / 2], [1 / 2]]]"
proof -
  obtain bn' where b: "BatchNorm1d_forward example_batch_norm [[[0], [0]], [[0], [0]]]
      = Inr ([[[0], [0]], [[0], [0]]], bn')"
    using example_batch_norm_zero by blast
  have t: "transpose12 [[[a], [b]], [[c], [d]]] = [[[a, b]], [[c, d]]]" for a b c d :: real
    by (simp add: transpose12_def transpose_m_def size1_def upt_conv_Cons)
  have t': "transpose12 [[[a, b]], [[c, d]]] = [[[a], [b]], [[c], [d]]]" for a b c d :: real
    by (simp add: transpose12_def transpose_m_def size1_def upt_conv_Cons)
  have s: "Softmax_forward [[[0, 0]], [[0, 0]]] = [[[1 / 2, 1 / 2]], [[1 / 2, 1 / 2]]]"
    by (simp add: Softmax_forward_def softmax_vec_def)
  show ?thesis
    by (simp add: conv_stack_forward_spec_def example_stack_def example_conv_run b t s t' bind_res_def)
qed


text \<open>
  C6, as amended. In a process model built by the constructor, whenever the
  encoder returns: it has run the two convolutions of kernel size 3 and padding
  1 and the batch normalisation on the channels-first tensor, and the softmax
  over the last axis of that tensor, which is the time axis: for every batch
  entry and every feature the values over time sum to 1. The hidden tensor is
  the result with feature and time swapped back; the linear map of width
  \<open>2 * d\<close> is applied to it, \<^verbatim>\<open>mu\<close> is the first \<open>d\<close> entries of each projected
  vector and \<^verbatim>\<open>sigma\<close> the last \<open>d\<close>, the two halves of a vector of length
  \<open>2 * d\<close>; and for \<open>d > 0\<close> the latent is entrywise \<open>mu + exp (sigma * 0.5) * noise\<close>
  for the noise drawn in the shape of \<^verbatim>\<open>sigma\<close>.
\<close>

theorem process_model_encoder_structure:
  assumes "encode (process_model_init conv_init linear_init gpx gpt gp d) x_noisy
             = Inr (h, mu, sigma, enc')"
  shows "\<exists>h1 h2 h3 bn' ms.
           Conv1d_forward \<lparr>in_channels = d, out_channels = d, kernel_size = 3, padding = 1,
                           conv_weight = fst (conv_init 0), conv_bias = snd (conv_init 0)\<rparr>
             (transpose12 x_noisy) = Inr h1 \<and>
           Conv1d_forward \<lparr>in_channels = d, out_channels = d, kernel_size = 3, padding = 1,
                           conv_weight = fst (conv_init 1), conv_bias = snd (conv_init 1)\<rparr>
             h1 = Inr h2 \<and>
           BatchNorm1d_forward
             (batch_norm (pm_encoder (process_model_init conv_init linear_init gpx gpt gp d))) h2
             = Inr (h3, bn') \<and>
           h = transpose12 (map (map softmax_vec) h3) \<and>
           (\<forall>a\<in>set h3. \<forall>row\<in>set a. row \<noteq> [] \<longrightarrow> sum_list (softmax_vec row) = 1) \<and>
           linear3 \<lparr>in_features = d, out_features = 2 * d, weight = fst (linear_init 0),
                    bias = Some (snd (linear_init 0))\<rparr> h = Inr ms \<and>
           mu = map (map (slice_to d)) ms \<and> sigma = map (map (slice_from (- int d))) ms \<and>
           (\<forall>n<length ms. \<forall>t<length (ms ! n).
              length (ms ! n ! t) = 2 * d \<longrightarrow> mu ! n ! t @ sigma ! n ! t = ms ! n ! t) \<and>
           (0 < d \<longrightarrow>
              (\<forall>g. \<exists>z. reparameterize mu sigma (fst (randn_like g sigma)) = Inr z \<and>
                 (\<forall>n<length mu. \<forall>t<length (mu ! n). \<forall>j<length (mu ! n ! t).
                    z ! n ! t ! j =
                      mu ! n ! t ! j
                      + exp (sigma ! n ! t ! j * 0.5) * fst (randn_like g sigma) ! n ! t ! j)))"
proof -
  let ?pm = "process_model_init conv_init linear_init gpx gpt gp d"
  let ?ca = "\<lparr>in_channels = d, out_channels = d, kernel_size = 3, padding = 1,
               conv_weight = fst (conv_init 0), conv_bias = snd (conv_init 0)\<rparr>"
  let ?cb = "\<lparr>in_channels = d, out_channels = d, kernel_size = 3, padding = 1,
               conv_weight = fst (conv_init 1), conv_bias = snd (conv_init 1)\<rparr>"
  let ?lin = "\<lparr>in_features = d, out_features = 2 * d, weight = fst (linear_init 0),
                bias = Some (snd (linear_init 0))\<rparr>"
  have ca: "conv_a (pm_encoder ?pm) = ?ca" and cb: "conv_b (pm_encoder ?pm) = ?cb"
    and lin: "musig ?pm = ?lin" and pd: "pm_d ?pm = d"
    by (simp_all add: process_model_init_def Let_def)
  from assms obtain hs enc0 ms where
    st: "conv_stack_forward (pm_encoder ?pm) (transpose12 x_noisy) = Inr (hs, enc0)"
    and l: "linear3 (musig ?pm) (transpose12 hs) = Inr ms"
    and h: "h = transpose12 hs"
    and mu: "mu = map (map (slice_to (pm_d ?pm))) ms"
    and sg: "sigma = map (map (slice_from (- int (pm_d ?pm)))) ms"
    by (auto simp: encode_def bind_res_Inr_iff Let_def split: prod.splits)
  from st obtain h1 h2 h3 bn' where
    c1: "Conv1d_forward (conv_a (pm_encoder ?pm)) (transpose12 x_noisy) = Inr h1"
    and c2: "Conv1d_forward (conv_b (pm_encoder ?pm)) h1 = Inr h2"
    and bn: "BatchNorm1d_forward (batch_norm (pm_encoder ?pm)) h2 = Inr (h3, bn')"
    and hs: "hs = Softmax_forward h3"
    by (auto simp: conv_stack_forward_def bind_res_Inr_iff split: prod.splits)
  have halves: "\<forall>n<length ms. \<forall>t<length (ms ! n).
              length (ms ! n ! t) = 2 * d \<longrightarrow> mu ! n ! t @ sigma ! n ! t = ms ! n ! t"
    by (simp add: mu sg pd split_halves)
  have z: "\<exists>z. reparameterize mu sigma (fst (randn_like g sigma)) = Inr z \<and>
                 (\<forall>n<length mu. \<forall>t<length (mu ! n). \<forall>j<length (mu ! n ! t).
                    z ! n ! t ! j =
                      mu ! n ! t ! j
                      + exp (sigma ! n ! t ! j * 0.5) * fst (randn_like g sigma) ! n ! t ! j)"
    if d: "0 < d" for g
  proof (rule reparameterize_entries)
    show "list_all2 (list_all2 (\<lambda>u v. length u = length v)) mu sigma"
      unfolding mu sg pd using d by (rule split_same_shape)
    show "list_all2 (list_all2 (\<lambda>u v. length u = length v)) sigma (fst (randn_like g sigma))"
      by (simp add: randn_like_def randn_tensor3_shape)
  qed
  have sums: "\<forall>a\<in>set h3. \<forall>row\<in>set a. row \<noteq> [] \<longrightarrow> sum_list (softmax_vec row) = 1"
    by (simp add: softmax_vec_sum)
  from c1 c2 bn h hs l mu sg halves z sums show ?thesis
    unfolding ca cb lin pd Softmax_forward_def by blast
qed

theorem process_model_encoder_structure_witness:
  "\<not> isl (encode example_process_model [[[1 / 10, - (1 / 10)]], [[1 / 10, - (1 / 10)]]]) \<and>
   (\<exists>h3. fst (projr (encode example_process_model [[[1 / 10, - (1 / 10)]], [[1 / 10, - (1 / 10)]]]))
            = transpose12 (map (map softmax_vec) h3) \<and>
          (\<forall>a\<in>set h3. \<forall>row\<in>set a. row \<noteq> [] \<longrightarrow> sum_list (softmax_vec row) = 1)) \<and>
   (\<exists>z. reparameterize [[[1, 1]], [[1, 1]]] [[[0, 0]], [[0, 0]]]
           (fst (randn_like example_noise [[[0, 0]], [[0, 0]]])) = Inr z \<and>
        z ! 0 ! 0 ! 0 = 2)"
proof -
  let ?X = "[[[1 / 10, - (1 / 10)]], [[1 / 10, - (1 / 10::real)]]]"
  obtain enc' where e: "encode example_process_model ?X
     = Inr ([[[1, 1]], [[1, 1]]], [[[1, 1]], [[1, 1]]], [[[0, 0]], [[0, 0]]], enc')"
    using example_encode_run by blast
  from process_model_encoder_structure [OF e [unfolded example_process_model_def]]
  obtain h3 where
    h: "[[[1, 1]], [[1, 1::real]]] = transpose12 (map (map softmax_vec) h3)"
    and s: "\<forall>a\<in>set h3. \<forall>row\<in>set a. row \<noteq> [] \<longrightarrow> sum_list (softmax_vec row) = 1"
    and z0: "0 < (2::nat) \<longrightarrow> (\<forall>g. \<exists>z. reparameterize [[[1, 1]], [[1, 1]]] [[[0, 0]], [[0, 0]]]
                (fst (randn_like g [[[0, 0]], [[0, 0]]])) = Inr z \<and>
              (\<forall>n<length [[[1, 1]], [[1, 1::real]]]. \<forall>t<length ([[[1, 1]], [[1, 1::real]]] ! n).
                 \<forall>j<length ([[[1, 1]], [[1, 1::real]]] ! n ! t).
                 z ! n ! t ! j =
                   [[[1, 1]], [[1, 1]]] ! n ! t ! j
                   + exp ([[[0, 0]], [[0, 0]]] ! n ! t ! j * 0.5)
                     * fst (randn_like g [[[0, 0]], [[0, 0]]]) ! n ! t ! j))"
    by (elim exE conjE) (rule that, assumption+)
  from z0 have z: "\<forall>g. \<exists>z. reparameterize [[[1, 1]], [[1, 1]]] [[[0, 0]], [[0, 0]]]
                (fst (randn_like g [[[0, 0]], [[0, 0]]])) = Inr z \<and>
              (\<forall>n<length [[[1, 1]], [[1, 1::real]]]. \<forall>t<length ([[[1, 1]], [[1, 1::real]]] ! n).
                 \<forall>j<length ([[[1, 1]], [[1, 1::real]]] ! n ! t).
                 z ! n ! t ! j =
                   [[[1, 1]], [[1, 1]]] ! n ! t ! j
                   + exp ([[[0, 0]], [[0, 0]]] ! n ! t ! j * 0.5)
                     * fst (randn_like g [[[0, 0]], [[0, 0]]]) ! n ! t ! j)"
    by simp
  from z obtain z where
    r: "reparameterize [[[1, 1]], [[1, 1]]] [[[0, 0]], [[0, 0]]]
          (fst (randn_like example_noise [[[0, 0]], [[0, 0]]])) = Inr z"
    and zz: "\<forall>n<length [[[1, 1]], [[1, 1::real]]]. \<forall>t<length ([[[1, 1]], [[1, 1::real]]] ! n).
                 \<forall>j<length ([[[1, 1]], [[1, 1::real]]] ! n ! t).
                 z ! n ! t ! j =
                   [[[1, 1]], [[1, 1]]] ! n ! t ! j
                   + exp ([[[0, 0]], [[0, 0]]] ! n ! t ! j * 0.5)
                     * fst (randn_like example_noise [[[0, 0]], [[0, 0]]]) ! n ! t ! j"
    by blast
  from zz have "z ! 0 ! 0 ! 0 = 1 + exp (0 * 0.5) * fst (randn_like example_noise [[[0, 0]], [[0, 0]]]) ! 0 ! 0 ! 0"
    by force
  then have "z ! 0 ! 0 ! 0 = 2"
    by (simp add: randn_like_run example_noise_def)
  with e h s r show ?thesis by auto
qed

text \<open>
  C6 as stated fails on the axis of the softmax: on two sequences of length 1
  and width 2 the encoder stack returns 1 everywhere, where a softmax over the
  two features returns one half.
\<close>

theorem process_model_encoder_softmax_counterexample:
  "fst (projr (conv_stack_forward (pm_encoder example_process_model) [[[0], [0]], [[0], [0]]]))
     = [[[1], [1]], [[1], [1]]] \<and>
   fst (projr (conv_stack_forward_spec (pm_encoder example_process_model) [[[0], [0]], [[0], [0]]]))
     = [[[1 / 2], [1 / 2]], [[1 / 2], [1 / 2]]]"
  by (simp add: example_process_model_eq example_stack_zero example_stack_spec_zero)

subsection \<open>The loss with a target\<close>















subsection \<open>The result of the transformer\<close>


























end
